theory Spec2Isabelle
  imports Main
begin

section \<open>Values, exceptions and the state of a run\<close>

text \<open>
  The program is \<^verbatim>\<open>cthulhu/calamari_ctl.py\<close>, a command-line tool with the
  subcommands \<^verbatim>\<open>initialize\<close>, \<^verbatim>\<open>change_password\<close> and \<^verbatim>\<open>clear\<close>.
  Every function of the source that has an effect becomes a function from the state of
  the run to a pair: the exception that left the function (\<open>None\<close> for a normal
  return) and the state at that moment. The state is kept on an exception too, because
  the top level reads the log after a failure.
\<close>

datatype level = DEBUG | INFO | WARNING | ERROR

datatype exn = RuntimeError string | OtherError string

text \<open>
  \<open>sys.stdout\<close> and \<open>sys.stderr\<close> hold either one of the two streams the
  interpreter started with (\<open>sys.__stdout__\<close> is \<open>Stdout\<close>,
  \<open>sys.__stderr__\<close> is \<open>Stderr\<close>) or a \<open>StringIO\<close> buffer with its contents.
\<close>

datatype stream = Stdout | Stderr | StringIO string

datatype json = JString string | JList "json list" | JObject "(string \<times> json) list"

datatype content = Text string | Json json

record user =
  username :: string
  password :: string
  email :: string

text \<open>
  The calls a run makes to its collaborators, in the order it makes them;
  \<open>OpenWrite p\<close> is \<open>open(p, 'w')\<close>.
\<close>

datatype call =
    LoadConfig
  | OpenWrite string
  | GetRandomString nat string
  | Spawn "string list"
  | Reflect
  | Upgrade string
  | CreateAll
  | Stamp string
  | DropAll
  | DropTable string
  | Django "string list"
  | CreateSuperuser string string string
  | Getpwnam string
  | Chown string nat nat

text \<open>
  \<open>files\<close>, \<open>tables\<close> (the table catalog of the database at \<open>db_path\<close>) and
  \<open>users\<close> (the accounts of the web interface) outlive a run. \<open>metadata\<close> is
  \<open>Base.metadata.tables\<close>, \<open>environ\<close> is \<open>os.environ\<close>, \<open>logs\<close> is every record
  the logger \<open>calamari_ctl\<close> was given (its level is DEBUG, so none is filtered there).
\<close>

record world =
  files :: "string \<rightharpoonup> content"
  tables :: "string list"
  users :: "user list"
  metadata :: "string list"
  environ :: "string \<rightharpoonup> string"
  sys_stdout :: stream
  sys_stderr :: stream
  logs :: "(level \<times> string) list"
  calls :: "call list"

record tm =
  tm_year :: nat
  tm_mon :: nat
  tm_mday :: nat
  tm_hour :: nat
  tm_min :: nat
  tm_sec :: nat

text \<open>
  What the collaborators answer is a parameter of the model. \<open>fails c\<close> is the exception
  the collaborator call \<open>c\<close> raises, if any. \<open>proc argv\<close> is the exit status, the
  standard output and the standard error of the child process \<open>argv\<close>.
  \<open>django_output argv\<close> is what the management command \<open>argv\<close> prints to
  \<open>sys.stdout\<close> and \<open>sys.stderr\<close>. \<open>prompted\<close> is the account the operator types at
  the prompts of \<open>createsuperuser\<close>, \<open>prompted_password\<close> the password typed at
  \<open>changepassword\<close>. \<open>migrated\<close> is what the migrations of \<open>alembic upgrade\<close> do to the
  table catalog. \<open>declared\<close> holds the table names of the imported model classes
  (\<open>SyncObject\<close>, \<open>Server\<close>, \<open>Service\<close>, \<open>Event\<close>), whose modules are not part
  of the file modelled here, and \<open>format_record\<close> is the formatter built from
  \<open>cthulhu.log.FORMAT\<close>, for the same reason.
\<close>

record env =
  fails :: "call \<Rightarrow> exn option"
  config_get :: "string \<Rightarrow> string \<Rightarrow> exn + string"
  get_random_string :: "nat \<Rightarrow> string \<Rightarrow> string"
  proc :: "string list \<Rightarrow> int \<times> string \<times> string"
  django_output :: "string list \<Rightarrow> string \<times> string"
  prompted :: user
  prompted_password :: string
  migrated :: "string list \<Rightarrow> string list"
  passwd :: "string \<rightharpoonup> nat \<times> nat"
  geteuid :: nat
  gmtime :: tm
  sys_argv :: "string list"
  format_record :: "level \<Rightarrow> string \<Rightarrow> string"
  format_exc :: "exn \<Rightarrow> string"
  declared :: "string list"

type_synonym cmd = "world \<Rightarrow> exn option \<times> world"

definition seq :: "cmd \<Rightarrow> cmd \<Rightarrow> cmd" where
  "seq f g w = (case f w of (None, w') \<Rightarrow> g w' | (Some e, w') \<Rightarrow> (Some e, w'))"

definition log_msg :: "level \<Rightarrow> string \<Rightarrow> world \<Rightarrow> world" where
  "log_msg l m w = w\<lparr>logs := logs w @ [(l, m)]\<rparr>"

definition record_call :: "call \<Rightarrow> world \<Rightarrow> world" where
  "record_call c w = w\<lparr>calls := calls w @ [c]\<rparr>"

text \<open>A collaborator call whose only modelled effect is to return or to raise.\<close>

definition external :: "env \<Rightarrow> call \<Rightarrow> cmd" where
  "external env c w = (fails env c, record_call c w)"

text \<open>
  The two handlers of the logger: the stream handler shows INFO and above, the file
  handler on \<open>log_tmp\<close> takes every record and writes one formatted line for each.
\<close>

definition console_sink :: "world \<Rightarrow> (level \<times> string) list" where
  "console_sink w = filter (\<lambda>(l, m). l \<noteq> DEBUG) (logs w)"


subsection \<open>Formatting numbers\<close>

definition digit :: "nat \<Rightarrow> char" where
  "digit n = ''0123456789'' ! (n mod 10)"

function str_nat :: "nat \<Rightarrow> string" where
  "str_nat n = (if n < 10 then [digit n] else str_nat (n div 10) @ [digit n])"
  by pat_completeness auto
termination
  by (relation "measure id") auto

declare str_nat.simps [simp del]

definition str_int :: "int \<Rightarrow> string" where
  "str_int i = (if i < 0 then ''-'' @ str_nat (nat (- i)) else str_nat (nat i))"



section \<open>The module's constants\<close>

definition ALEMBIC_TABLE :: string where
  "ALEMBIC_TABLE = ''alembic_version''"

definition POSTGRES_SLS :: string where
  "POSTGRES_SLS = ''/opt/calamari/salt-local/postgres.sls''"

definition SERVICES_SLS :: string where
  "SERVICES_SLS = ''/opt/calamari/salt-local/services.sls''"

definition RELAX_SALT_PERMS_SLS :: string where
  "RELAX_SALT_PERMS_SLS = ''/opt/calamari/salt-local/relax_salt_perms.sls''"

section \<open>quiet\<close>

text \<open>
  \<open>getvalue\<close> exists on a \<open>StringIO\<close> only; on a file object the attribute lookup
  raises.
\<close>

definition getvalue :: "stream \<Rightarrow> exn + string" where
  "getvalue s = (case s of StringIO b \<Rightarrow> Inr b | _ \<Rightarrow> Inl (OtherError ''AttributeError''))"

definition write_stream :: "string \<Rightarrow> stream \<Rightarrow> stream" where
  "write_stream t s = (case s of StringIO b \<Rightarrow> StringIO (b @ t) | _ \<Rightarrow> s)"

definition restore_streams :: "world \<Rightarrow> world" where
  "restore_streams w = w\<lparr>sys_stdout := Stdout, sys_stderr := Stderr\<rparr>"

text \<open>
  The context manager around a body. The \<open>except\<close> clause logs both buffers and
  raises again; an exception inside the clause itself replaces the one being handled;
  the \<open>finally\<close> clause runs on every path.
\<close>

definition quiet :: "cmd \<Rightarrow> cmd" where
  "quiet body w =
     (let w1 = w\<lparr>sys_stdout := StringIO [], sys_stderr := StringIO []\<rparr>
      in case body w1 of
           (None, w2) \<Rightarrow> (None, restore_streams w2)
         | (Some e, w2) \<Rightarrow>
             (case getvalue (sys_stdout w2) of
                Inl e' \<Rightarrow> (Some e', restore_streams w2)
              | Inr out \<Rightarrow>
                  (let w3 = log_msg ERROR out w2
                   in case getvalue (sys_stderr w3) of
                        Inl e' \<Rightarrow> (Some e', restore_streams w3)
                      | Inr err \<Rightarrow> (Some e, restore_streams (log_msg ERROR err w3)))))"

section \<open>run_local_salt\<close>

definition salt_argv :: "string \<Rightarrow> string list" where
  "salt_argv sls = [''salt-call'', ''--local'', ''state.template'', sls]"

definition run_local_salt :: "env \<Rightarrow> string \<Rightarrow> string \<Rightarrow> cmd" where
  "run_local_salt env sls message w =
     (if files w sls \<noteq> None then
        (let w1 = log_msg INFO (''Starting/enabling '' @ message @ ''...'') w;
             w2 = record_call (Spawn (salt_argv sls)) w1
         in case fails env (Spawn (salt_argv sls)) of
              Some e \<Rightarrow> (Some e, w2)
            | None \<Rightarrow>
                (case proc env (salt_argv sls) of
                   (rc, out, err) \<Rightarrow>
                     (let w3 = log_msg DEBUG (message @ '' salt stdout: '' @ out) w2;
                          w4 = log_msg DEBUG (message @ '' salt stderr: '' @ err) w3
                      in if rc \<noteq> 0
                         then (Some (RuntimeError (''salt-call for '' @ message @
                                       '' failed with rc='' @ str_int rc)), w4)
                         else (None, w4))))
      else (None, log_msg DEBUG (''Skipping '' @ message @ '' configuration, SLS not found'') w))"

section \<open>The collaborators of initialize and clear\<close>

text \<open>
  \<open>Base.metadata.reflect(engine)\<close> adds every table of the database to the metadata.
  \<open>create_all\<close> and \<open>drop_all\<close> check first which of the metadata's tables the
  database has; \<open>Table.drop\<close> does not check, and the database refuses to drop a
  table it does not have. \<open>command.stamp\<close> creates the version table when it is
  missing. A collaborator that raises leaves the catalog as it found it.
\<close>

definition reflect :: "env \<Rightarrow> cmd" where
  "reflect env w =
     (case fails env Reflect of
        Some e \<Rightarrow> (Some e, record_call Reflect w)
      | None \<Rightarrow> (None, (record_call Reflect w)
                   \<lparr>metadata := metadata w @ filter (\<lambda>t. t \<notin> set (metadata w)) (tables w)\<rparr>))"

definition upgrade :: "env \<Rightarrow> string \<Rightarrow> cmd" where
  "upgrade env revision w =
     (case fails env (Upgrade revision) of
        Some e \<Rightarrow> (Some e, record_call (Upgrade revision) w)
      | None \<Rightarrow> (None, (record_call (Upgrade revision) w)\<lparr>tables := migrated env (tables w)\<rparr>))"

definition create_all :: "env \<Rightarrow> cmd" where
  "create_all env w =
     (case fails env CreateAll of
        Some e \<Rightarrow> (Some e, record_call CreateAll w)
      | None \<Rightarrow> (None, (record_call CreateAll w)
                   \<lparr>tables := tables w @ filter (\<lambda>t. t \<notin> set (tables w)) (metadata w)\<rparr>))"

definition stamp :: "env \<Rightarrow> string \<Rightarrow> cmd" where
  "stamp env revision w =
     (case fails env (Stamp revision) of
        Some e \<Rightarrow> (Some e, record_call (Stamp revision) w)
      | None \<Rightarrow> (None, (record_call (Stamp revision) w)
                   \<lparr>tables := (if ALEMBIC_TABLE \<in> set (tables w) then tables w
                                else tables w @ [ALEMBIC_TABLE])\<rparr>))"

definition drop_all :: "env \<Rightarrow> cmd" where
  "drop_all env w =
     (case fails env DropAll of
        Some e \<Rightarrow> (Some e, record_call DropAll w)
      | None \<Rightarrow> (None, (record_call DropAll w)
                   \<lparr>tables := filter (\<lambda>t. t \<notin> set (metadata w)) (tables w)\<rparr>))"

definition drop_table :: "env \<Rightarrow> string \<Rightarrow> cmd" where
  "drop_table env t w =
     (case fails env (DropTable t) of
        Some e \<Rightarrow> (Some e, record_call (DropTable t) w)
      | None \<Rightarrow>
          (if t \<in> set (tables w)
           then (None, (record_call (DropTable t) w)\<lparr>tables := filter (\<lambda>x. x \<noteq> t) (tables w)\<rparr>)
           else (Some (OtherError ''ProgrammingError''), record_call (DropTable t) w)))"

text \<open>
  \<open>execute_from_command_line(argv)\<close>: the command prints to whatever \<open>sys.stdout\<close>
  and \<open>sys.stderr\<close> are at that moment, then returns or raises. Of the four commands
  the tool uses, \<open>createsuperuser\<close> adds the account typed at its prompts and
  \<open>changepassword\<close> sets the password of the named account, which must exist;
  \<open>syncdb --noinput\<close> and \<open>collectstatic --noinput\<close> leave the accounts alone.
\<close>

definition django_accounts :: "env \<Rightarrow> string list \<Rightarrow> user list \<Rightarrow> exn + user list" where
  "django_accounts env argv us =
     (case argv of
        [a0, c] \<Rightarrow> if c = ''createsuperuser'' then Inr (us @ [prompted env]) else Inr us
      | [a0, c, u] \<Rightarrow>
          if c = ''changepassword'' then
            (if u \<in> set (map username us)
             then Inr (map (\<lambda>x. if username x = u then x\<lparr>password := prompted_password env\<rparr> else x) us)
             else Inl (OtherError ''CommandError''))
          else Inr us
      | _ \<Rightarrow> Inr us)"

definition execute_from_command_line :: "env \<Rightarrow> string list \<Rightarrow> cmd" where
  "execute_from_command_line env argv w =
     (let w1 = (record_call (Django argv) w)
                 \<lparr>sys_stdout := write_stream (fst (django_output env argv)) (sys_stdout w),
                  sys_stderr := write_stream (snd (django_output env argv)) (sys_stderr w)\<rparr>
      in case fails env (Django argv) of
           Some e \<Rightarrow> (Some e, w1)
         | None \<Rightarrow>
             (case django_accounts env argv (users w1) of
                Inl e \<Rightarrow> (Some e, w1)
              | Inr us \<Rightarrow> (None, w1\<lparr>users := us\<rparr>)))"

text \<open>\<open>user_model.objects.create_superuser(username=..., password=..., email=...)\<close>\<close>

definition create_superuser :: "env \<Rightarrow> string \<Rightarrow> string \<Rightarrow> string \<Rightarrow> cmd" where
  "create_superuser env u p e w =
     (case fails env (CreateSuperuser u p e) of
        Some x \<Rightarrow> (Some x, record_call (CreateSuperuser u p e) w)
      | None \<Rightarrow> (None, (record_call (CreateSuperuser u p e) w)
                   \<lparr>users := users w @ [\<lparr>username = u, password = p, email = e\<rparr>]\<rparr>))"

definition setdefault_settings :: "world \<Rightarrow> world" where
  "setdefault_settings w =
     (if environ w ''DJANGO_SETTINGS_MODULE'' = None
      then w\<lparr>environ := (environ w)(''DJANGO_SETTINGS_MODULE'' \<mapsto> ''calamari_web.settings'')\<rparr>
      else w)"

definition endswith :: "string \<Rightarrow> string \<Rightarrow> bool" where
  "endswith s suf = (length suf \<le> length s \<and> drop (length s - length suf) s = suf)"

section \<open>initialize\<close>

text \<open>
  The arguments of \<open>initialize\<close> as argparse leaves them: \<open>None\<close> for a flag that was
  not given, the string otherwise.
\<close>

record init_args =
  admin_username :: "string option"
  admin_password :: "string option"
  admin_email :: "string option"

text \<open>Python's truth value of \<open>None\<close> or a string: the empty string is false.\<close>

fun truthy :: "string option \<Rightarrow> bool" where
  "truthy None = False"
| "truthy (Some s) = (s \<noteq> [])"

definition secret_chars :: string where
  "secret_chars = ''abcdefghijklmnopqrstuvwxyz0123456789!@#$%^&*(-_=+)''"

text \<open>
  Lines 90 to 99: the configuration and the secret key. In
  \<open>open(path, 'w').write(get_random_string(50, chars))\<close> the file is opened first:
  \<open>open\<close> raises and leaves the file system as it was when the path cannot be opened
  for writing (a directory that does not exist, a permission that is missing), and
  creates the file empty otherwise. The secret is generated next, and written last; the
  write goes to the buffer of the file object, which is flushed when the object is
  released at the end of the statement.
\<close>

definition open_w :: "env \<Rightarrow> string \<Rightarrow> cmd" where
  "open_w env path w =
     (case external env (OpenWrite path) w of
        (Some e, w1) \<Rightarrow> (Some e, w1)
      | (None, w1) \<Rightarrow> (None, w1\<lparr>files := (files w1)(path \<mapsto> Text [])\<rparr>))"

definition init_secret_key :: "env \<Rightarrow> cmd" where
  "init_secret_key env w =
     (case external env LoadConfig (log_msg INFO ''Loading configuration..'' w) of
        (Some e, w1) \<Rightarrow> (Some e, w1)
      | (None, w1) \<Rightarrow>
          (case config_get env ''calamari_web'' ''secret_key_path'' of
             Inl e \<Rightarrow> (Some e, w1)
           | Inr path \<Rightarrow>
               if \<not> (files w1 path \<noteq> None) then
                 (case open_w env path w1 of
                    (Some e, w2) \<Rightarrow> (Some e, w2)
                  | (None, w2) \<Rightarrow>
                      (case external env (GetRandomString 50 secret_chars) w2 of
                         (Some e, w3) \<Rightarrow> (Some e, w3)
                       | (None, w3) \<Rightarrow>
                           (None, w3\<lparr>files := (files w3)
                              (path \<mapsto> Text (get_random_string env 50 secret_chars))\<rparr>)))
               else (None, w1)))"

text \<open>Lines 105 to 117: the database of cthulhu.\<close>

definition init_cthulhu_db :: "env \<Rightarrow> cmd" where
  "init_cthulhu_db env w =
     (case config_get env ''cthulhu'' ''db_path'' of
        Inl e \<Rightarrow> (Some e, w)
      | Inr db_path \<Rightarrow>
          (case reflect env w of
             (Some e, w1) \<Rightarrow> (Some e, w1)
           | (None, w1) \<Rightarrow>
               if ALEMBIC_TABLE \<in> set (metadata w1) then
                 upgrade env ''head'' (log_msg INFO ''Updating database...'' w1)
               else
                 seq (create_all env) (stamp env ''head'')
                   (log_msg INFO ''Initializing database...'' w1)))"

text \<open>Lines 129 to 145: the administrative account.\<close>

definition create_given :: "env \<Rightarrow> string \<Rightarrow> string \<Rightarrow> string \<Rightarrow> cmd" where
  "create_given env u p e w =
     (if \<not> (u \<in> set (map username (users w))) then
        create_superuser env u p e
          (log_msg INFO (''Creating user '' @ [CHR 0x27] @ u @ [CHR 0x27]) w)
      else (None, w))"

definition prompt_text :: string where
  "prompt_text = ''You will now be prompted for login details for the administrative '' @
     ''user account.  This is the account you will use to log into the web interface '' @
     ''once setup is complete.''"

definition create_prompted :: "env \<Rightarrow> cmd" where
  "create_prompted env w =
     (if \<not> (length (users w) \<noteq> 0) then
        execute_from_command_line env ['''', ''createsuperuser''] (log_msg INFO prompt_text w)
      else (None, w))"

definition admin_account :: "env \<Rightarrow> init_args \<Rightarrow> cmd" where
  "admin_account env a w =
     (if truthy (admin_username a) \<and> truthy (admin_password a) \<and> truthy (admin_email a) then
        (case (admin_username a, admin_password a, admin_email a) of
           (Some u, Some p, Some e) \<Rightarrow> create_given env u p e w
         | _ \<Rightarrow> create_prompted env w)
      else create_prompted env w)"

text \<open>Lines 120 to 149: the database of the web interface, the account, the static files.\<close>

definition init_django :: "env \<Rightarrow> init_args \<Rightarrow> cmd" where
  "init_django env a w =
     seq (quiet (execute_from_command_line env ['''', ''syncdb'', ''--noinput'']))
       (seq (\<lambda>w. admin_account env a (log_msg INFO ''Initializing web interface...'' w))
          (quiet (execute_from_command_line env ['''', ''collectstatic'', ''--noinput''])))
       (setdefault_settings w)"

text \<open>Lines 153 to 158: the owner of the log file and of the SQLite database.\<close>

definition chown_to :: "env \<Rightarrow> string \<Rightarrow> nat \<times> nat \<Rightarrow> cmd" where
  "chown_to env key ids w =
     (case config_get env ''calamari_web'' key of
        Inl e \<Rightarrow> (Some e, w)
      | Inr path \<Rightarrow> external env (Chown path (fst ids) (snd ids)) w)"

definition init_ownership :: "env \<Rightarrow> cmd" where
  "init_ownership env w =
     (case config_get env ''calamari_web'' ''username'' of
        Inl e \<Rightarrow> (Some e, w)
      | Inr name \<Rightarrow>
          (case passwd env name of
             None \<Rightarrow> (Some (OtherError ''KeyError''), record_call (Getpwnam name) w)
           | Some ids \<Rightarrow>
               seq (chown_to env ''log_path'' ids)
                 (\<lambda>w. case config_get env ''calamari_web'' ''db_engine'' of
                         Inl e \<Rightarrow> (Some e, w)
                       | Inr eng \<Rightarrow>
                           if endswith eng ''sqlite3'' then chown_to env ''db_name'' ids w
                           else (None, w))
                 (record_call (Getpwnam name) w)))"

text \<open>
  Lines 161 to 168: the services. \<open>subprocess.call\<close> returns the exit status of
  \<open>supervisorctl\<close>, and the source drops it; the call raises only when the child
  cannot be started.
\<close>

definition supervisor_argv :: "string list" where
  "supervisor_argv = [''supervisorctl'', ''restart'', ''cthulhu'']"

definition restart_services :: "env \<Rightarrow> cmd" where
  "restart_services env w =
     (case external env (Spawn supervisor_argv) (log_msg INFO ''Restarting services...'' w) of
        (Some e, w1) \<Rightarrow> (Some e, w1)
      | (None, w1) \<Rightarrow> (None, log_msg INFO ''Complete.'' w1))"

definition init_services :: "env \<Rightarrow> cmd" where
  "init_services env = seq (run_local_salt env SERVICES_SLS ''services'') (restart_services env)"

text \<open>The steps before the database of cthulhu, and the whole command.\<close>

definition init_prefix :: "env \<Rightarrow> cmd" where
  "init_prefix env =
     seq (init_secret_key env)
       (seq (run_local_salt env RELAX_SALT_PERMS_SLS ''salt'')
          (run_local_salt env POSTGRES_SLS ''postgres''))"

definition initialize :: "env \<Rightarrow> init_args \<Rightarrow> cmd" where
  "initialize env a =
     seq (init_prefix env)
       (seq (init_cthulhu_db env)
          (seq (init_django env a)
             (seq (init_ownership env) (init_services env))))"

text \<open>
  The steps of \<open>initialize\<close> that come before the restart of the service, in the
  order of the source: \<open>initialize\<close> is these steps and then \<open>restart_services\<close>.
\<close>

definition init_before_restart :: "env \<Rightarrow> init_args \<Rightarrow> cmd" where
  "init_before_restart env a =
     seq (init_prefix env)
       (seq (init_cthulhu_db env)
          (seq (init_django env a)
             (seq (init_ownership env) (run_local_salt env SERVICES_SLS ''services''))))"

section \<open>change_password and clear\<close>


text \<open>\<open>os.path.basename\<close>: what follows the last slash.\<close>

definition basename :: "string \<Rightarrow> string" where
  "basename p = rev (takeWhile (\<lambda>c. c \<noteq> CHR ''/'') (rev p))"

definition clear_warning :: string where
  "clear_warning = ''This will remove all stored Calamari monitoring status and history.  '' @
     ''Use '' @ [CHR 0x27] @ ''--yes-i-am-sure'' @ [CHR 0x27] @ '' to proceed''"

definition clear_done :: "env \<Rightarrow> cmd" where
  "clear_done env w =
     (case sys_argv env of
        [] \<Rightarrow> (Some (OtherError ''IndexError''), w)
      | a0 # _ \<Rightarrow>
          (None, log_msg INFO (''Complete.  Now run `'' @ basename a0 @ '' initialize`'') w))"

definition clear :: "env \<Rightarrow> bool \<Rightarrow> cmd" where
  "clear env yes_i_am_sure w =
     (if \<not> yes_i_am_sure then (None, log_msg WARNING clear_warning w)
      else
        (case external env LoadConfig (log_msg INFO ''Loading configuration..'' w) of
           (Some e, w1) \<Rightarrow> (Some e, w1)
         | (None, w1) \<Rightarrow>
             (case config_get env ''cthulhu'' ''db_path'' of
                Inl e \<Rightarrow> (Some e, log_msg INFO ''Dropping tables'' w1)
              | Inr db_path \<Rightarrow>
                  seq (drop_all env)
                    (seq (reflect env)
                       (seq (\<lambda>w. if ALEMBIC_TABLE \<in> set (metadata w)
                                  then drop_table env ALEMBIC_TABLE w else (None, w))
                          (clear_done env)))
                    (log_msg INFO ''Dropping tables'' w1))))"

section \<open>main\<close>








text \<open>
  A new process: the module is imported again, so the metadata holds the declared tables
  only, the log is empty and the streams are the interpreter's.
\<close>

definition new_process :: "env \<Rightarrow> world \<Rightarrow> world" where
  "new_process env w =
     w\<lparr>metadata := declared env, environ := Map.empty, sys_stdout := Stdout,
       sys_stderr := Stderr, logs := [], calls := []\<rparr>"

section \<open>The detector of the specification, and notions for the proofs\<close>

text \<open>
  The Migration State Detector as the specification words it (section 4.4): reflect the
  table catalog of the schema store; the state is \<open>EXISTING\<close> if the version-marker
  table is in it, \<open>FRESH\<close> otherwise. The source has no such function: it tests
  \<open>ALEMBIC_TABLE in Base.metadata.tables\<close> after \<open>reflect\<close>.
\<close>

datatype migration_state = FRESH | EXISTING

definition spec_detect :: "string list \<Rightarrow> migration_state" where
  "spec_detect catalog = (if ALEMBIC_TABLE \<in> set catalog then EXISTING else FRESH)"

text \<open>The calls sorted by the collaborator they go to.\<close>

datatype kind = ConfigK | FileK | RandomK | SpawnK | ReflectK | SchemaK | DropK | DjangoK | AccountK | OwnerK

fun kind_of :: "call \<Rightarrow> kind" where
  "kind_of LoadConfig = ConfigK"
| "kind_of (OpenWrite p) = FileK"
| "kind_of (GetRandomString n cs) = RandomK"
| "kind_of (Spawn argv) = SpawnK"
| "kind_of Reflect = ReflectK"
| "kind_of (Upgrade r) = SchemaK"
| "kind_of CreateAll = SchemaK"
| "kind_of (Stamp r) = SchemaK"
| "kind_of DropAll = DropK"
| "kind_of (DropTable t) = DropK"
| "kind_of (Django argv) = DjangoK"
| "kind_of (CreateSuperuser u p e) = AccountK"
| "kind_of (Getpwnam n) = OwnerK"
| "kind_of (Chown p u g) = OwnerK"

definition is_schema_call :: "call \<Rightarrow> bool" where
  "is_schema_call c = (kind_of c = SchemaK)"

text \<open>
  \<open>keeps obs f\<close>: the command \<open>f\<close> leaves the observation \<open>obs\<close> of the state as it
  was, on a return and on an exception. \<open>emits Q f\<close>: \<open>f\<close> only appends calls to the
  trace, and each of them satisfies \<open>Q\<close>.
\<close>

definition keeps :: "(world \<Rightarrow> 'a) \<Rightarrow> cmd \<Rightarrow> bool" where
  "keeps obs f = (\<forall>w. obs (snd (f w)) = obs w)"

definition emits :: "(call \<Rightarrow> bool) \<Rightarrow> cmd \<Rightarrow> bool" where
  "emits Q f = (\<forall>w. \<exists>cs. calls (snd (f w)) = calls w @ cs \<and> list_all Q cs)"

section \<open>A concrete installation\<close>

definition demo_config :: "string \<Rightarrow> string \<Rightarrow> exn + string" where
  "demo_config s k =
     (if s = ''calamari_web'' \<and> k = ''secret_key_path'' then Inr ''/etc/calamari/secret.key''
      else if s = ''cthulhu'' \<and> k = ''db_path'' then Inr ''postgresql://localhost/calamari''
      else if s = ''calamari_web'' \<and> k = ''username'' then Inr ''www-data''
      else if s = ''calamari_web'' \<and> k = ''log_path'' then Inr ''/var/log/calamari''
      else if s = ''calamari_web'' \<and> k = ''db_engine'' then Inr ''django.db.backends.postgresql_psycopg2''
      else Inl (OtherError ''NoOptionError''))"

definition demo_env :: env where
  "demo_env =
     \<lparr>fails = (\<lambda>c. None), config_get = demo_config,
      get_random_string = (\<lambda>n cs. replicate n (CHR ''x'')),
      proc = (\<lambda>argv. (0, [], [])), django_output = (\<lambda>argv. ([], [])),
      prompted = \<lparr>username = ''admin'', password = ''secret'', email = ''admin@example.com''\<rparr>,
      prompted_password = ''changed'', migrated = (\<lambda>ts. ts),
      passwd = [''www-data'' \<mapsto> (33, 33)], geteuid = 0,
      gmtime = \<lparr>tm_year = 2014, tm_mon = 3, tm_mday = 5, tm_hour = 14, tm_min = 7, tm_sec = 42\<rparr>,
      sys_argv = [''/usr/bin/calamari-ctl'', ''initialize''],
      format_record = (\<lambda>l m. m), format_exc = (\<lambda>e. ''Traceback (most recent call last):''),
      declared = [''cthulhu_sync_object'', ''cthulhu_server'', ''cthulhu_service'', ''cthulhu_event'']\<rparr>"

definition demo_world :: world where
  "demo_world =
     \<lparr>files = Map.empty, tables = [], users = [], metadata = declared demo_env,
      environ = Map.empty, sys_stdout = Stdout, sys_stderr = Stderr, logs = [], calls = []\<rparr>"

definition demo_args :: init_args where
  "demo_args = \<lparr>admin_username = None, admin_password = None, admin_email = None\<rparr>"

text \<open>
  The same installation with the three state files of salt in place, a child process
  that ends with the given status and output, and a \<open>syncdb\<close> that fails after it
  has printed to both streams.
\<close>

definition installed_world :: world where
  "installed_world =
     demo_world\<lparr>files := [RELAX_SALT_PERMS_SLS \<mapsto> Text [], POSTGRES_SLS \<mapsto> Text [],
                           SERVICES_SLS \<mapsto> Text []]\<rparr>"

definition salt_env :: "int \<Rightarrow> string \<Rightarrow> string \<Rightarrow> env" where
  "salt_env rc out err = demo_env\<lparr>proc := (\<lambda>argv. (rc, out, err))\<rparr>"

definition syncdb_argv :: "string list" where
  "syncdb_argv = [[], ''syncdb'', ''--noinput'']"

definition syncdb_fails_env :: env where
  "syncdb_fails_env =
     demo_env\<lparr>fails := (\<lambda>c. if c = Django syncdb_argv then Some (OtherError ''DatabaseError'')
                              else None),
               django_output := (\<lambda>argv. (''Creating tables ...'', ''connection refused''))\<rparr>"


definition restart_fails_env :: env where
  "restart_fails_env =
     demo_env\<lparr>proc := (\<lambda>argv. if argv = supervisor_argv
                               then (1, [], ''cthulhu: ERROR (abnormal termination)'')
                               else (0, [], []))\<rparr>"

text \<open>
  An installation where the secret key cannot be opened for writing, because the directory
  \<open>/etc/calamari\<close> does not exist, and one where no secret can be generated.
\<close>

definition open_fails_env :: env where
  "open_fails_env =
     demo_env\<lparr>fails := (\<lambda>c. if c = OpenWrite ''/etc/calamari/secret.key''
                              then Some (OtherError ''IOError'') else None)\<rparr>"

definition random_fails_env :: env where
  "random_fails_env =
     demo_env\<lparr>fails := (\<lambda>c. if c = GetRandomString 50 secret_chars
                              then Some (OtherError ''NotImplementedError'') else None)\<rparr>"


text \<open>
  The namespace of \<open>initialize --admin-username u --admin-password p --admin-email e\<close>,
  the call that starts the prompts of \<open>createsuperuser\<close>, and an installation with
  one account.
\<close>

definition admin_flags :: "string \<Rightarrow> string \<Rightarrow> string \<Rightarrow> init_args" where
  "admin_flags u p e = \<lparr>admin_username = Some u, admin_password = Some p, admin_email = Some e\<rparr>"

definition prompt_call :: call where
  "prompt_call = Django [[], ''createsuperuser'']"

definition bob :: user where
  "bob = \<lparr>username = ''bob'', password = ''hunter2'', email = ''bob@x.com''\<rparr>"

definition bob_world :: world where
  "bob_world = installed_world\<lparr>users := [bob]\<rparr>"

section \<open>Sequencing, frames and traces\<close>

lemmas demo_defs = demo_env_def demo_world_def demo_args_def demo_config_def

lemmas const_defs = ALEMBIC_TABLE_def POSTGRES_SLS_def SERVICES_SLS_def RELAX_SALT_PERMS_SLS_def
  salt_argv_def supervisor_argv_def secret_chars_def

lemmas step_defs = external_def log_msg_def record_call_def restore_streams_def getvalue_def
  write_stream_def setdefault_settings_def open_w_def

lemmas model_defs = initialize_def init_prefix_def init_secret_key_def run_local_salt_def
  init_cthulhu_db_def init_django_def init_ownership_def init_services_def restart_services_def
  seq_def reflect_def upgrade_def create_all_def stamp_def quiet_def
  execute_from_command_line_def django_accounts_def admin_account_def create_given_def
  create_prompted_def create_superuser_def chown_to_def endswith_def

lemma seq_returns: "f w = (None, w1) \<Longrightarrow> seq f g w = g w1"
  by (simp add: seq_def)

lemma seq_raises: "f w = (Some e, w1) \<Longrightarrow> seq f g w = (Some e, w1)"
  by (simp add: seq_def)

lemma seq_cases:
  "(\<exists>e. fst (f w) = Some e \<and> seq f g w = f w) \<or> (fst (f w) = None \<and> seq f g w = g (snd (f w)))"
  by (cases "f w"; cases "fst (f w)") (auto simp: seq_def)

lemma seq_completes: "fst (seq f g w) = None \<Longrightarrow> fst (f w) = None \<and> fst (g (snd (f w))) = None"
  using seq_cases [of f w g] by auto

lemma keeps_seq: "keeps obs f \<Longrightarrow> keeps obs g \<Longrightarrow> keeps obs (seq f g)"
  unfolding keeps_def
proof
  fix w
  assume f: "\<forall>w. obs (snd (f w)) = obs w" and g: "\<forall>w. obs (snd (g w)) = obs w"
  from seq_cases [of f w g] show "obs (snd (seq f g w)) = obs w"
    using f g by auto
qed

lemma keepsD: "keeps obs f \<Longrightarrow> obs (snd (f w)) = obs w"
  by (simp add: keeps_def)

lemma emits_seq: "emits Q f \<Longrightarrow> emits Q g \<Longrightarrow> emits Q (seq f g)"
  unfolding emits_def
proof
  fix w
  assume f: "\<forall>w. \<exists>cs. calls (snd (f w)) = calls w @ cs \<and> list_all Q cs"
     and g: "\<forall>w. \<exists>cs. calls (snd (g w)) = calls w @ cs \<and> list_all Q cs"
  from f obtain cs where cs: "calls (snd (f w)) = calls w @ cs" "list_all Q cs" by blast
  from g obtain ds where ds: "calls (snd (g (snd (f w)))) = calls (snd (f w)) @ ds" "list_all Q ds"
    by blast
  from seq_cases [of f w g]
  show "\<exists>cs. calls (snd (seq f g w)) = calls w @ cs \<and> list_all Q cs"
  proof
    assume "\<exists>e. fst (f w) = Some e \<and> seq f g w = f w"
    with cs show ?thesis by auto
  next
    assume "fst (f w) = None \<and> seq f g w = g (snd (f w))"
    with cs ds have "calls (snd (seq f g w)) = calls w @ (cs @ ds) \<and> list_all Q (cs @ ds)"
      by simp
    then show ?thesis by blast
  qed
qed

lemma emits_mono: "emits Q f \<Longrightarrow> (\<And>c. Q c \<Longrightarrow> Q' c) \<Longrightarrow> emits Q' f"
  unfolding emits_def list_all_iff by blast

lemma emits_filter:
  assumes "emits Q f" and "\<And>c. Q c \<Longrightarrow> \<not> P c"
  shows "filter P (calls (snd (f w))) = filter P (calls w)"
proof -
  from assms(1) obtain cs where cs: "calls (snd (f w)) = calls w @ cs" "list_all Q cs"
    unfolding emits_def by blast
  from cs(2) assms(2) have "filter P cs = []"
    by (auto simp: list_all_iff filter_empty_conv)
  with cs(1) show ?thesis by simp
qed

subsection \<open>What each step emits\<close>

lemma emits_secret_key:
  "emits (\<lambda>c. kind_of c = ConfigK \<or> kind_of c = FileK \<or> kind_of c = RandomK)
     (init_secret_key env)"
  unfolding emits_def init_secret_key_def
  by (auto simp: step_defs Let_def split: option.splits sum.splits)

lemma emits_salt: "emits (\<lambda>c. kind_of c = SpawnK) (run_local_salt env sls m)"
  unfolding emits_def run_local_salt_def
  by (auto simp: step_defs Let_def split: option.splits prod.splits)

lemma emits_prefix:
  "emits (\<lambda>c. kind_of c = ConfigK \<or> kind_of c = FileK \<or> kind_of c = RandomK \<or> kind_of c = SpawnK)
     (init_prefix env)"
  unfolding init_prefix_def
  by (intro emits_seq emits_mono [OF emits_secret_key] emits_mono [OF emits_salt]) auto

lemma emits_execute: "emits (\<lambda>c. c = Django argv) (execute_from_command_line env argv)"
  unfolding emits_def execute_from_command_line_def
  by (auto simp: step_defs Let_def split: option.splits sum.splits)

lemma calls_quiet:
  "calls (snd (quiet body w)) =
     calls (snd (body (w\<lparr>sys_stdout := StringIO [], sys_stderr := StringIO []\<rparr>)))"
  unfolding quiet_def
  by (cases "body (w\<lparr>sys_stdout := StringIO [], sys_stderr := StringIO []\<rparr>)")
     (auto simp: step_defs Let_def split: option.splits sum.splits)

lemma emits_quiet:
  assumes "emits Q body"
  shows "emits Q (quiet body)"
  unfolding emits_def
proof
  fix w :: world
  from assms obtain cs where
    "calls (snd (body (w\<lparr>sys_stdout := StringIO [], sys_stderr := StringIO []\<rparr>))) =
       calls (w\<lparr>sys_stdout := StringIO [], sys_stderr := StringIO []\<rparr>) @ cs"
    and "list_all Q cs"
    unfolding emits_def by blast
  then show "\<exists>cs. calls (snd (quiet body w)) = calls w @ cs \<and> list_all Q cs"
    by (auto simp: calls_quiet)
qed

lemma emits_cthulhu_db:
  "emits (\<lambda>c. kind_of c = ReflectK \<or> kind_of c = SchemaK) (init_cthulhu_db env)"
  unfolding emits_def init_cthulhu_db_def reflect_def upgrade_def create_all_def stamp_def seq_def
  by (auto simp: step_defs Let_def split: option.splits sum.splits)

lemma emits_admin_account:
  "emits (\<lambda>c. kind_of c = AccountK \<or> kind_of c = DjangoK) (admin_account env a)"
  unfolding emits_def admin_account_def create_given_def create_prompted_def create_superuser_def
    execute_from_command_line_def
  by (auto simp: step_defs Let_def split: option.splits sum.splits)

lemma emits_after: "emits Q f \<Longrightarrow> (\<And>w. calls (g w) = calls w) \<Longrightarrow> emits Q (\<lambda>w. f (g w))"
  unfolding emits_def by metis

lemma calls_setdefault_settings: "calls (setdefault_settings w) = calls w"
  by (simp add: setdefault_settings_def)

lemma emits_django_from:
  assumes "emits Q (admin_account env a)" and "\<And>argv. Q (Django argv)"
  shows "emits Q (init_django env a)"
proof -
  have q: "emits Q (quiet (execute_from_command_line env argv))" for argv
    by (rule emits_quiet, rule emits_mono [OF emits_execute]) (simp add: assms(2))
  have b: "emits Q (\<lambda>w. admin_account env a (log_msg INFO ''Initializing web interface...'' w))"
    by (rule emits_after [OF assms(1)]) (simp add: step_defs)
  have s: "emits Q (seq (quiet (execute_from_command_line env [[], ''syncdb'', ''--noinput'']))
       (seq (\<lambda>w. admin_account env a (log_msg INFO ''Initializing web interface...'' w))
          (quiet (execute_from_command_line env [[], ''collectstatic'', ''--noinput'']))))"
    by (rule emits_seq [OF q emits_seq [OF b q]])
  show ?thesis
    using emits_after [OF s, of setdefault_settings]
    by (simp add: init_django_def [abs_def] calls_setdefault_settings)
qed

lemma emits_django:
  "emits (\<lambda>c. kind_of c = AccountK \<or> kind_of c = DjangoK) (init_django env a)"
  by (rule emits_django_from [OF emits_admin_account]) simp

lemma emits_ownership: "emits (\<lambda>c. kind_of c = OwnerK) (init_ownership env)"
  unfolding emits_def init_ownership_def chown_to_def seq_def
  by (auto simp: step_defs Let_def split: option.splits sum.splits)

lemma emits_restart: "emits (\<lambda>c. kind_of c = SpawnK) (restart_services env)"
  unfolding emits_def restart_services_def
  by (auto simp: step_defs split: option.splits)

lemma emits_services: "emits (\<lambda>c. kind_of c = SpawnK) (init_services env)"
  unfolding init_services_def by (intro emits_seq emits_salt emits_restart)

lemma emits_after_db:
  "emits (\<lambda>c. kind_of c = AccountK \<or> kind_of c = DjangoK \<or> kind_of c = OwnerK \<or> kind_of c = SpawnK)
     (seq (init_django env a) (seq (init_ownership env) (init_services env)))"
  by (intro emits_seq emits_mono [OF emits_django] emits_mono [OF emits_ownership]
        emits_mono [OF emits_services]) auto

subsection \<open>What each step leaves alone\<close>

lemma keeps_quiet:
  assumes "keeps obs body"
    and "\<And>w so se. obs (w\<lparr>sys_stdout := so, sys_stderr := se\<rparr>) = obs w"
    and "\<And>w l. obs (w\<lparr>logs := l\<rparr>) = obs w"
  shows "keeps obs (quiet body)"
  unfolding keeps_def
proof
  fix w :: world
  let ?w1 = "w\<lparr>sys_stdout := StringIO [], sys_stderr := StringIO []\<rparr>"
  have "obs (snd (body ?w1)) = obs w"
    using assms(1) by (simp add: keeps_def assms(2))
  then show "obs (snd (quiet body w)) = obs w"
    unfolding quiet_def
    by (cases "body ?w1")
       (auto simp: step_defs Let_def assms(2) assms(3) split: option.splits sum.splits)
qed

lemma keeps_after: "keeps obs f \<Longrightarrow> (\<And>w. obs (g w) = obs w) \<Longrightarrow> keeps obs (\<lambda>w. f (g w))"
  unfolding keeps_def by simp

lemma keeps_users_secret_key: "keeps users (init_secret_key env)"
  unfolding keeps_def init_secret_key_def
  by (auto simp: step_defs Let_def split: option.splits sum.splits)

lemma keeps_users_salt: "keeps users (run_local_salt env sls m)"
  unfolding keeps_def run_local_salt_def
  by (auto simp: step_defs Let_def split: option.splits prod.splits)

lemma keeps_users_prefix: "keeps users (init_prefix env)"
  unfolding init_prefix_def by (intro keeps_seq keeps_users_secret_key keeps_users_salt)

lemma keeps_users_cthulhu_db: "keeps users (init_cthulhu_db env)"
  unfolding keeps_def init_cthulhu_db_def reflect_def upgrade_def create_all_def stamp_def seq_def
  by (auto simp: step_defs Let_def split: option.splits sum.splits)

lemma keeps_users_execute:
  "c \<noteq> ''createsuperuser'' \<Longrightarrow> c \<noteq> ''changepassword'' \<Longrightarrow>
   keeps users (execute_from_command_line env [a0, c, x])"
  unfolding keeps_def execute_from_command_line_def django_accounts_def
  by (auto simp: step_defs Let_def split: option.splits sum.splits)

lemma keeps_users_quiet_execute:
  "c \<noteq> ''createsuperuser'' \<Longrightarrow> c \<noteq> ''changepassword'' \<Longrightarrow>
   keeps users (quiet (execute_from_command_line env [a0, c, x]))"
  by (rule keeps_quiet [OF keeps_users_execute]) simp_all

lemma keeps_users_ownership: "keeps users (init_ownership env)"
  unfolding keeps_def init_ownership_def chown_to_def seq_def
  by (auto simp: step_defs Let_def split: option.splits sum.splits)

lemma keeps_users_restart: "keeps users (restart_services env)"
  unfolding keeps_def restart_services_def
  by (auto simp: step_defs split: option.splits)

lemma keeps_users_services: "keeps users (init_services env)"
  unfolding init_services_def by (intro keeps_seq keeps_users_salt keeps_users_restart)

lemma keeps_tables_secret_key: "keeps tables (init_secret_key env)"
  unfolding keeps_def init_secret_key_def
  by (auto simp: step_defs Let_def split: option.splits sum.splits)

lemma keeps_tables_salt: "keeps tables (run_local_salt env sls m)"
  unfolding keeps_def run_local_salt_def
  by (auto simp: step_defs Let_def split: option.splits prod.splits)

lemma keeps_tables_prefix: "keeps tables (init_prefix env)"
  unfolding init_prefix_def by (intro keeps_seq keeps_tables_secret_key keeps_tables_salt)

lemma keeps_metadata_secret_key: "keeps metadata (init_secret_key env)"
  unfolding keeps_def init_secret_key_def
  by (auto simp: step_defs Let_def split: option.splits sum.splits)

lemma keeps_metadata_salt: "keeps metadata (run_local_salt env sls m)"
  unfolding keeps_def run_local_salt_def
  by (auto simp: step_defs Let_def split: option.splits prod.splits)

lemma keeps_metadata_prefix: "keeps metadata (init_prefix env)"
  unfolding init_prefix_def by (intro keeps_seq keeps_metadata_secret_key keeps_metadata_salt)

lemma obs_seq_right: "keeps obs g \<Longrightarrow> obs (snd (seq f g w)) = obs (snd (f w))"
  using seq_cases [of f w g] by (auto simp: keeps_def)

lemma emits_keeps:
  "emits Q f \<Longrightarrow> (\<And>c. Q c \<Longrightarrow> \<not> P c) \<Longrightarrow> keeps (\<lambda>w. filter P (calls w)) f"
  unfolding keeps_def using emits_filter by blast

lemma keeps_pair: "keeps f c \<Longrightarrow> keeps g c \<Longrightarrow> keeps (\<lambda>w. (f w, g w)) c"
  by (simp add: keeps_def)

section \<open>run_local_salt\<close>

text \<open>
  C7. When the state file \<open>sls\<close> does not exist, \<open>run_local_salt\<close> is a skip and not a
  failure: it returns normally, it starts no child process (the trace of calls is as it
  was), its only effect is one DEBUG record, and whatever step comes next in the pipeline
  is run, on that state.
\<close>

theorem run_local_salt_skips_missing_sls:
  assumes "files w sls = None"
  shows "run_local_salt env sls message w =
           (None, log_msg DEBUG (''Skipping '' @ message @ '' configuration, SLS not found'') w)
         \<and> calls (snd (run_local_salt env sls message w)) = calls w
         \<and> seq (run_local_salt env sls message) next_step w =
             next_step (log_msg DEBUG (''Skipping '' @ message @ '' configuration, SLS not found'') w)"
  using assms by (simp add: run_local_salt_def seq_def log_msg_def)

theorem run_local_salt_skips_missing_sls_witness:
  "files demo_world POSTGRES_SLS = None
   \<and> run_local_salt demo_env POSTGRES_SLS ''postgres'' demo_world =
       (None, log_msg DEBUG ''Skipping postgres configuration, SLS not found'' demo_world)
   \<and> calls (snd (run_local_salt demo_env POSTGRES_SLS ''postgres'' demo_world)) = []
   \<and> fst (seq (run_local_salt demo_env POSTGRES_SLS ''postgres'') (init_cthulhu_db demo_env)
            demo_world) = None"
proof -
  have h: "files demo_world POSTGRES_SLS = None"
    by (simp add: demo_world_def)
  show ?thesis
    using h run_local_salt_skips_missing_sls [OF h, of demo_env "''postgres''" "init_cthulhu_db demo_env"]
    by (simp add: demo_defs init_cthulhu_db_def reflect_def create_all_def stamp_def seq_def
          step_defs const_defs)
qed

text \<open>
  C6, as the code has it. When the state file exists and the child process was started,
  its standard output and standard error are logged at DEBUG, after the INFO record of the
  start and whatever the exit status is; a status other than zero then raises a
  \<open>RuntimeError\<close> whose message names the step and the status. The exception carries
  neither stream: they are in the log only.
\<close>

theorem run_local_salt_child_exit:
  assumes "files w sls \<noteq> None"
    and "fails env (Spawn (salt_argv sls)) = None"
    and "proc env (salt_argv sls) = (rc, out, err)"
  shows "fst (run_local_salt env sls message w) =
           (if rc \<noteq> 0
            then Some (RuntimeError (''salt-call for '' @ message @ '' failed with rc='' @ str_int rc))
            else None)
         \<and> logs (snd (run_local_salt env sls message w)) =
             logs w @ [(INFO, ''Starting/enabling '' @ message @ ''...''),
                       (DEBUG, message @ '' salt stdout: '' @ out),
                       (DEBUG, message @ '' salt stderr: '' @ err)]
         \<and> calls (snd (run_local_salt env sls message w)) = calls w @ [Spawn (salt_argv sls)]"
  using assms by (auto simp: run_local_salt_def Let_def log_msg_def record_call_def)

theorem run_local_salt_child_exit_witness:
  "files installed_world POSTGRES_SLS \<noteq> None
   \<and> fails (salt_env 2 ''out-A'' ''err-A'') (Spawn (salt_argv POSTGRES_SLS)) = None
   \<and> proc (salt_env 2 ''out-A'' ''err-A'') (salt_argv POSTGRES_SLS) = (2, ''out-A'', ''err-A'')
   \<and> fst (run_local_salt (salt_env 2 ''out-A'' ''err-A'') POSTGRES_SLS ''postgres'' installed_world) =
       Some (RuntimeError ''salt-call for postgres failed with rc=2'')
   \<and> logs (snd (run_local_salt (salt_env 2 ''out-A'' ''err-A'') POSTGRES_SLS ''postgres''
                  installed_world)) =
       [(INFO, ''Starting/enabling postgres...''), (DEBUG, ''postgres salt stdout: out-A''),
        (DEBUG, ''postgres salt stderr: err-A'')]"
proof -
  have h1: "files installed_world POSTGRES_SLS \<noteq> None"
    by (simp add: installed_world_def)
  have h2: "fails (salt_env 2 ''out-A'' ''err-A'') (Spawn (salt_argv POSTGRES_SLS)) = None"
    by (simp add: salt_env_def demo_env_def)
  have h3: "proc (salt_env 2 ''out-A'' ''err-A'') (salt_argv POSTGRES_SLS) = (2, ''out-A'', ''err-A'')"
    by (simp add: salt_env_def)
  have s: "str_int 2 = ''2''"
    by (simp add: str_int_def str_nat.simps digit_def)
  show ?thesis
    using h1 h2 h3 run_local_salt_child_exit [OF h1 h2 h3, of "''postgres''"]
    by (simp add: s installed_world_def demo_world_def)
qed

text \<open>
  C6, as the claim states it, fails: the exception of a failed step is the same whatever
  the child printed, so it carries neither the captured stdout nor the captured stderr.
\<close>

theorem run_local_salt_error_counterexample:
  "fst (run_local_salt (salt_env 1 ''out-A'' ''err-A'') POSTGRES_SLS ''postgres'' installed_world) =
     Some (RuntimeError ''salt-call for postgres failed with rc=1'')
   \<and> fst (run_local_salt (salt_env 1 ''out-B'' ''err-B'') POSTGRES_SLS ''postgres'' installed_world) =
     Some (RuntimeError ''salt-call for postgres failed with rc=1'')"
  by (simp add: run_local_salt_def salt_env_def demo_defs installed_world_def const_defs step_defs
        Let_def str_int_def str_nat.simps digit_def)

section \<open>quiet\<close>

text \<open>
  C8. Whatever the body does and however it ends, after \<open>quiet\<close> the two streams are the
  interpreter's own again. When the body returns, the result is the body's state with the
  streams restored: nothing is logged and the buffers are gone. When the body raises
  while the buffers are still installed, both buffers are logged at ERROR, standard output
  first, and the same exception is raised again. This is so for every management command
  run under \<open>quiet\<close>: what it printed before it raised is in the error log.
\<close>

theorem quiet_contract:
  "sys_stdout (snd (quiet body w)) = Stdout \<and> sys_stderr (snd (quiet body w)) = Stderr
   \<and> (body (w\<lparr>sys_stdout := StringIO [], sys_stderr := StringIO []\<rparr>) = (None, w2) \<longrightarrow>
        quiet body w = (None, restore_streams w2) \<and> logs (snd (quiet body w)) = logs w2)
   \<and> (body (w\<lparr>sys_stdout := StringIO [], sys_stderr := StringIO []\<rparr>) = (Some e, w2) \<longrightarrow>
        sys_stdout w2 = StringIO out \<longrightarrow> sys_stderr w2 = StringIO err \<longrightarrow>
        quiet body w = (Some e, restore_streams (log_msg ERROR err (log_msg ERROR out w2))))
   \<and> (fst (execute_from_command_line env argv
              (w\<lparr>sys_stdout := StringIO [], sys_stderr := StringIO []\<rparr>)) = Some x \<longrightarrow>
        fst (quiet (execute_from_command_line env argv) w) = Some x
        \<and> logs (snd (quiet (execute_from_command_line env argv) w)) =
            logs w @ [(ERROR, fst (django_output env argv)), (ERROR, snd (django_output env argv))])"
proof (intro conjI impI)
  show "sys_stdout (snd (quiet body w)) = Stdout"
    unfolding quiet_def
    by (cases "body (w\<lparr>sys_stdout := StringIO [], sys_stderr := StringIO []\<rparr>)")
       (auto simp: step_defs Let_def split: option.splits sum.splits)
  show "sys_stderr (snd (quiet body w)) = Stderr"
    unfolding quiet_def
    by (cases "body (w\<lparr>sys_stdout := StringIO [], sys_stderr := StringIO []\<rparr>)")
       (auto simp: step_defs Let_def split: option.splits sum.splits)
next
  assume "body (w\<lparr>sys_stdout := StringIO [], sys_stderr := StringIO []\<rparr>) = (None, w2)"
  then show "quiet body w = (None, restore_streams w2)"
    and "logs (snd (quiet body w)) = logs w2"
    by (simp_all add: quiet_def restore_streams_def)
next
  assume "body (w\<lparr>sys_stdout := StringIO [], sys_stderr := StringIO []\<rparr>) = (Some e, w2)"
    and "sys_stdout w2 = StringIO out" and "sys_stderr w2 = StringIO err"
  then show "quiet body w = (Some e, restore_streams (log_msg ERROR err (log_msg ERROR out w2)))"
    by (simp add: quiet_def getvalue_def log_msg_def)
next
  assume x: "fst (execute_from_command_line env argv
                    (w\<lparr>sys_stdout := StringIO [], sys_stderr := StringIO []\<rparr>)) = Some x"
  then show "fst (quiet (execute_from_command_line env argv) w) = Some x"
    by (auto simp: quiet_def execute_from_command_line_def step_defs Let_def
          split: option.splits sum.splits)
  from x show "logs (snd (quiet (execute_from_command_line env argv) w)) =
      logs w @ [(ERROR, fst (django_output env argv)), (ERROR, snd (django_output env argv))]"
    by (auto simp: quiet_def execute_from_command_line_def step_defs Let_def
          split: option.splits sum.splits)
qed

theorem quiet_contract_witness:
  "fst (execute_from_command_line syncdb_fails_env syncdb_argv
          (demo_world\<lparr>sys_stdout := StringIO [], sys_stderr := StringIO []\<rparr>)) =
     Some (OtherError ''DatabaseError'')
   \<and> fst (quiet (execute_from_command_line syncdb_fails_env syncdb_argv) demo_world) =
       Some (OtherError ''DatabaseError'')
   \<and> logs (snd (quiet (execute_from_command_line syncdb_fails_env syncdb_argv) demo_world)) =
       [(ERROR, ''Creating tables ...''), (ERROR, ''connection refused'')]
   \<and> sys_stdout (snd (quiet (execute_from_command_line syncdb_fails_env syncdb_argv) demo_world)) =
       Stdout
   \<and> sys_stderr (snd (quiet (execute_from_command_line syncdb_fails_env syncdb_argv) demo_world)) =
       Stderr"
proof -
  have h: "fst (execute_from_command_line syncdb_fails_env syncdb_argv
                  (demo_world\<lparr>sys_stdout := StringIO [], sys_stderr := StringIO []\<rparr>)) =
             Some (OtherError ''DatabaseError'')"
    by (simp add: execute_from_command_line_def syncdb_fails_env_def Let_def)
  note q = quiet_contract [of "execute_from_command_line syncdb_fails_env syncdb_argv" demo_world
      demo_world "OtherError ''DatabaseError''" "[]" "[]" syncdb_fails_env syncdb_argv
      "OtherError ''DatabaseError''"]
  from q h have c:
    "fst (quiet (execute_from_command_line syncdb_fails_env syncdb_argv) demo_world) =
       Some (OtherError ''DatabaseError'')
     \<and> logs (snd (quiet (execute_from_command_line syncdb_fails_env syncdb_argv) demo_world)) =
         logs demo_world @ [(ERROR, fst (django_output syncdb_fails_env syncdb_argv)),
                            (ERROR, snd (django_output syncdb_fails_env syncdb_argv))]"
    by blast
  from q have s:
    "sys_stdout (snd (quiet (execute_from_command_line syncdb_fails_env syncdb_argv) demo_world)) =
       Stdout
     \<and> sys_stderr (snd (quiet (execute_from_command_line syncdb_fails_env syncdb_argv) demo_world)) =
       Stderr"
    by blast
  have l: "logs demo_world = []"
    and d: "django_output syncdb_fails_env syncdb_argv = (''Creating tables ...'', ''connection refused'')"
    by (simp_all add: demo_world_def syncdb_fails_env_def)
  from h c s show ?thesis
    by (simp add: l d)
qed

section \<open>clear\<close>

lemma clear_first_run:
  assumes "clear env True (new_process env w) = (None, w1)"
  shows "fails env LoadConfig = None"
    and "\<exists>p. config_get env ''cthulhu'' ''db_path'' = Inr p"
    and "fails env DropAll = None"
    and "fails env Reflect = None"
    and "sys_argv env \<noteq> []"
    and "tables w1 = filter (\<lambda>x. x \<noteq> ALEMBIC_TABLE) (filter (\<lambda>t. t \<notin> set (declared env)) (tables w))"
    and "ALEMBIC_TABLE \<notin> set (declared env)"
proof -
  show "fails env LoadConfig = None"
    using assms by (auto simp: clear_def external_def split: option.splits)
  then have l: "external env LoadConfig x = (None, record_call LoadConfig x)" for x
    by (simp add: external_def)
  show p: "\<exists>p. config_get env ''cthulhu'' ''db_path'' = Inr p"
    using assms by (cases "config_get env ''cthulhu'' ''db_path''") (auto simp: clear_def l)
  then obtain p where c: "config_get env ''cthulhu'' ''db_path'' = Inr p" ..
  show d: "fails env DropAll = None"
    using assms by (auto simp: clear_def l c seq_def drop_all_def split: option.splits)
  show r: "fails env Reflect = None"
    using assms
    by (auto simp: clear_def l c d seq_def drop_all_def reflect_def split: option.splits)
  show "sys_argv env \<noteq> []"
    using assms
    by (auto simp: clear_def l c d r seq_def drop_all_def reflect_def drop_table_def clear_done_def
          split: option.splits if_splits)
  show n: "ALEMBIC_TABLE \<notin> set (declared env)"
    using assms
    by (auto simp: clear_def l c d r seq_def drop_all_def reflect_def drop_table_def clear_done_def
          new_process_def step_defs split: option.splits if_splits list.splits)
  show "tables w1 =
      filter (\<lambda>x. x \<noteq> ALEMBIC_TABLE) (filter (\<lambda>t. t \<notin> set (declared env)) (tables w))"
  proof (cases "ALEMBIC_TABLE \<in> set (tables w)")
    case True
    with n assms show ?thesis
      by (auto simp: clear_def l c d r seq_def drop_all_def reflect_def drop_table_def
            clear_done_def new_process_def step_defs split: option.splits if_splits list.splits)
  next
    case False
    have "filter (\<lambda>x. x \<noteq> ALEMBIC_TABLE) (filter (\<lambda>t. t \<notin> set (declared env)) (tables w)) =
        filter (\<lambda>t. t \<notin> set (declared env)) (tables w)"
      by (rule filter_True) (use False in auto)
    with False n assms show ?thesis
      by (auto simp: clear_def l c d r seq_def drop_all_def reflect_def drop_table_def
            clear_done_def new_process_def step_defs split: option.splits if_splits list.splits)
  qed
qed

lemma clear_nothing_left:
  assumes "fails env LoadConfig = None"
    and "config_get env ''cthulhu'' ''db_path'' = Inr p"
    and "fails env DropAll = None"
    and "fails env Reflect = None"
    and "sys_argv env \<noteq> []"
    and "ALEMBIC_TABLE \<notin> set (declared env)"
    and "ALEMBIC_TABLE \<notin> set (tables w)"
    and "\<forall>t \<in> set (tables w). t \<notin> set (declared env)"
  shows "fst (clear env True (new_process env w)) = None"
    and "tables (snd (clear env True (new_process env w))) = tables w"
    and "filter (\<lambda>c. kind_of c = DropK) (calls (snd (clear env True (new_process env w)))) = [DropAll]"
proof -
  from assms(8) have f: "filter (\<lambda>t. t \<notin> set (declared env)) (tables w) = tables w"
    by (auto intro: filter_True)
  from assms(5) obtain a0 rest where a: "sys_argv env = a0 # rest"
    by (cases "sys_argv env") auto
  from assms(1-4,6,7) f a
  show "fst (clear env True (new_process env w)) = None"
    and "tables (snd (clear env True (new_process env w))) = tables w"
    and "filter (\<lambda>c. kind_of c = DropK) (calls (snd (clear env True (new_process env w)))) = [DropAll]"
    by (simp_all add: clear_def seq_def drop_all_def reflect_def clear_done_def new_process_def
          step_defs)
qed

text \<open>
  C4. Without the confirmation flag \<open>clear\<close> returns at once: the log gets one more
  record, the warning that \<open>--yes-i-am-sure\<close> is needed, at level WARNING, which the
  console handler shows; there is no call to any collaborator and the table catalog is as
  it was. With the flag, when one run in a
  fresh process has succeeded, the next run in a fresh process on the state it left
  succeeds too, although nothing is left to drop: the version table is gone, \<open>drop_all\<close>
  is the only drop that is attempted, and the catalog stays as the first run left it.
\<close>

theorem clear_contract:
  "clear env False w = (None, log_msg WARNING clear_warning w)
   \<and> fst (clear env False w) = None
   \<and> logs (snd (clear env False w)) =
       logs w @ [(WARNING, ''This will remove all stored Calamari monitoring status and history.  '' @
                           ''Use '' @ [CHR 0x27] @ ''--yes-i-am-sure'' @ [CHR 0x27] @ '' to proceed'')]
   \<and> console_sink (snd (clear env False w)) =
       console_sink w @ [(WARNING, ''This will remove all stored Calamari monitoring status and history.  '' @
                                   ''Use '' @ [CHR 0x27] @ ''--yes-i-am-sure'' @ [CHR 0x27] @ '' to proceed'')]
   \<and> tables (snd (clear env False w)) = tables w
   \<and> calls (snd (clear env False w)) = calls w
   \<and> (clear env True (new_process env w) = (None, w1) \<longrightarrow>
        ALEMBIC_TABLE \<notin> set (tables w1)
        \<and> fst (clear env True (new_process env w1)) = None
        \<and> tables (snd (clear env True (new_process env w1))) = tables w1
        \<and> filter (\<lambda>c. kind_of c = DropK) (calls (snd (clear env True (new_process env w1)))) =
            [DropAll])"
proof (intro conjI impI)
  show "clear env False w = (None, log_msg WARNING clear_warning w)"
    by (simp add: clear_def)
  show "fst (clear env False w) = None"
    by (simp add: clear_def)
  show "logs (snd (clear env False w)) =
      logs w @ [(WARNING, ''This will remove all stored Calamari monitoring status and history.  '' @
                          ''Use '' @ [CHR 0x27] @ ''--yes-i-am-sure'' @ [CHR 0x27] @ '' to proceed'')]"
    by (simp add: clear_def log_msg_def clear_warning_def)
  show "console_sink (snd (clear env False w)) =
      console_sink w @ [(WARNING, ''This will remove all stored Calamari monitoring status and history.  '' @
                                  ''Use '' @ [CHR 0x27] @ ''--yes-i-am-sure'' @ [CHR 0x27] @ '' to proceed'')]"
    by (simp add: clear_def log_msg_def clear_warning_def console_sink_def)
  show "tables (snd (clear env False w)) = tables w"
    by (simp add: clear_def log_msg_def)
  show "calls (snd (clear env False w)) = calls w"
    by (simp add: clear_def log_msg_def)
next
  assume a: "clear env True (new_process env w) = (None, w1)"
  note f = clear_first_run [OF a]
  from f(2) obtain p where p: "config_get env ''cthulhu'' ''db_path'' = Inr p" ..
  from f(6) show n: "ALEMBIC_TABLE \<notin> set (tables w1)"
    by simp
  from f(6) have d: "\<forall>t \<in> set (tables w1). t \<notin> set (declared env)"
    by simp
  note s = clear_nothing_left [OF f(1) p f(3) f(4) f(5) f(7) n d]
  from s(1) show "fst (clear env True (new_process env w1)) = None" .
  from s(2) show "tables (snd (clear env True (new_process env w1))) = tables w1" .
  from s(3) show "filter (\<lambda>c. kind_of c = DropK)
      (calls (snd (clear env True (new_process env w1)))) = [DropAll]" .
qed

theorem clear_contract_witness:
  "clear demo_env True (new_process demo_env (demo_world\<lparr>tables := declared demo_env @ [ALEMBIC_TABLE]\<rparr>)) =
     (None, snd (clear demo_env True
                   (new_process demo_env (demo_world\<lparr>tables := declared demo_env @ [ALEMBIC_TABLE]\<rparr>))))
   \<and> tables (snd (clear demo_env True
        (new_process demo_env (demo_world\<lparr>tables := declared demo_env @ [ALEMBIC_TABLE]\<rparr>)))) = []
   \<and> fst (clear demo_env True (new_process demo_env
        (snd (clear demo_env True
           (new_process demo_env (demo_world\<lparr>tables := declared demo_env @ [ALEMBIC_TABLE]\<rparr>)))))) = None"
proof -
  let ?w = "demo_world\<lparr>tables := declared demo_env @ [ALEMBIC_TABLE]\<rparr>"
  have r: "fst (clear demo_env True (new_process demo_env ?w)) = None"
    and t: "tables (snd (clear demo_env True (new_process demo_env ?w))) = []"
    by (simp_all add: clear_def seq_def drop_all_def reflect_def drop_table_def clear_done_def
          new_process_def step_defs demo_defs const_defs)
  from r have h: "clear demo_env True (new_process demo_env ?w) =
      (None, snd (clear demo_env True (new_process demo_env ?w)))"
    by (simp add: prod_eq_iff)
  from clear_contract [of demo_env ?w "snd (clear demo_env True (new_process demo_env ?w))"] h
  have "fst (clear demo_env True (new_process demo_env
          (snd (clear demo_env True (new_process demo_env ?w))))) = None"
    by blast
  with h t show ?thesis
    by simp
qed

section \<open>main\<close>







section \<open>The restart of the service\<close>

lemma seq_assoc: "seq (seq f g) h = seq f (seq g h)"
  by (rule ext) (simp add: seq_def split: prod.splits option.splits)

lemma initialize_before_restart:
  "initialize env a = seq (init_before_restart env a) (restart_services env)"
  by (simp add: initialize_def init_before_restart_def init_services_def seq_assoc)

lemma proc_of_supervisor_unused:
  fixes env :: env and r :: "int \<times> string \<times> string"
  defines "env' \<equiv> env\<lparr>proc := (proc env)(supervisor_argv := r)\<rparr>"
  shows "init_secret_key env' = init_secret_key env"
    and "run_local_salt env' sls m = run_local_salt env sls m"
    and "init_cthulhu_db env' = init_cthulhu_db env"
    and "init_django env' a = init_django env a"
    and "init_ownership env' = init_ownership env"
    and "restart_services env' = restart_services env"
proof -
  note cg = option.case_cong sum.case_cong prod.case_cong if_cong
  show "init_secret_key env' = init_secret_key env"
    by (rule ext) (simp add: env'_def init_secret_key_def open_w_def external_def cong: cg)
  show "run_local_salt env' sls m = run_local_salt env sls m"
    by (rule ext)
       (simp add: env'_def run_local_salt_def salt_argv_def supervisor_argv_def cong: cg)
  have r: "reflect env' = reflect env"
    by (rule ext) (simp add: env'_def reflect_def cong: cg)
  have u: "upgrade env' = upgrade env"
    by ((rule ext)+) (simp add: env'_def upgrade_def cong: cg)
  have c: "create_all env' = create_all env"
    by (rule ext) (simp add: env'_def create_all_def cong: cg)
  have s: "stamp env' = stamp env"
    by ((rule ext)+) (simp add: env'_def stamp_def cong: cg)
  have g: "config_get env' = config_get env"
    by (simp add: env'_def)
  show "init_cthulhu_db env' = init_cthulhu_db env"
    by (rule ext) (simp add: init_cthulhu_db_def r u c s g cong: cg)
  have ex: "execute_from_command_line env' = execute_from_command_line env"
    by ((rule ext)+)
       (simp add: env'_def execute_from_command_line_def django_accounts_def Let_def
          cong: cg list.case_cong)
  have cs: "create_superuser env' = create_superuser env"
    by ((rule ext)+) (simp add: env'_def create_superuser_def cong: cg)
  have ad: "admin_account env' = admin_account env"
    by ((rule ext)+)
       (simp add: admin_account_def create_given_def create_prompted_def ex cs cong: cg)
  show "init_django env' a = init_django env a"
    by (rule ext) (simp add: init_django_def ex ad cong: cg)
  have ch: "chown_to env' = chown_to env"
    by ((rule ext)+) (simp add: env'_def chown_to_def external_def cong: cg)
  have p: "passwd env' = passwd env"
    by (simp add: env'_def)
  show "init_ownership env' = init_ownership env"
    by (rule ext) (simp add: init_ownership_def ch g p cong: cg)
  show "restart_services env' = restart_services env"
    by (rule ext) (simp add: env'_def restart_services_def external_def cong: cg)
qed

text \<open>
  C9, as the code has it. The exit status of \<open>supervisorctl restart cthulhu\<close> is dropped:
  whatever the child process returns and prints, the run is the same run, with the same
  result and the same log, so a failed restart is neither raised nor logged. When all the
  steps before it have succeeded and the child process could be started, \<open>initialize\<close>
  logs \<open>Restarting services...\<close> and \<open>Complete.\<close> and returns normally.
\<close>

theorem restart_exit_status_ignored:
  "initialize (env\<lparr>proc := (proc env)(supervisor_argv := r)\<rparr>) a w = initialize env a w
   \<and> (init_before_restart env a w = (None, w9) \<longrightarrow> fails env (Spawn supervisor_argv) = None \<longrightarrow>
        initialize env a w =
          (None, log_msg INFO ''Complete.''
                   (record_call (Spawn supervisor_argv) (log_msg INFO ''Restarting services...'' w9))))"
proof (intro conjI impI)
  show "initialize (env\<lparr>proc := (proc env)(supervisor_argv := r)\<rparr>) a w = initialize env a w"
    by (simp add: initialize_def init_prefix_def init_services_def proc_of_supervisor_unused)
next
  assume "init_before_restart env a w = (None, w9)" and "fails env (Spawn supervisor_argv) = None"
  then show "initialize env a w =
      (None, log_msg INFO ''Complete.''
               (record_call (Spawn supervisor_argv) (log_msg INFO ''Restarting services...'' w9)))"
    by (simp add: initialize_before_restart seq_def restart_services_def external_def)
qed

lemma restart_fails_before:
  "fst (init_before_restart restart_fails_env demo_args installed_world) = None"
  by (simp add: init_before_restart_def model_defs step_defs demo_defs installed_world_def
        restart_fails_env_def const_defs Let_def)

theorem restart_exit_status_ignored_witness:
  "fst (init_before_restart restart_fails_env demo_args installed_world) = None
   \<and> fails restart_fails_env (Spawn supervisor_argv) = None
   \<and> fst (initialize restart_fails_env demo_args installed_world) = None
   \<and> initialize (restart_fails_env\<lparr>proc := (proc restart_fails_env)(supervisor_argv := (0, [], []))\<rparr>)
        demo_args installed_world =
      initialize restart_fails_env demo_args installed_world"
proof -
  have h1: "init_before_restart restart_fails_env demo_args installed_world =
      (None, snd (init_before_restart restart_fails_env demo_args installed_world))"
    using restart_fails_before by (simp add: prod_eq_iff)
  have h2: "fails restart_fails_env (Spawn supervisor_argv) = None"
    by (simp add: restart_fails_env_def demo_env_def)
  note t = restart_exit_status_ignored [of restart_fails_env "(0, [], [])" demo_args installed_world
      "snd (init_before_restart restart_fails_env demo_args installed_world)"]
  from t h1 h2 have "fst (initialize restart_fails_env demo_args installed_world) = None"
    by simp
  with t h2 restart_fails_before show ?thesis
    by blast
qed

text \<open>
  C9, as the claim states it, fails: with a \<open>supervisorctl\<close> that ends with status 1 and
  an error on its standard error, \<open>initialize\<close> returns normally and its log has no
  record of the failure: after \<open>Restarting services...\<close> comes \<open>Complete.\<close> and
  nothing else.
\<close>

theorem restart_failure_not_logged_counterexample:
  "proc restart_fails_env supervisor_argv = (1, [], ''cthulhu: ERROR (abnormal termination)'')
   \<and> fst (initialize restart_fails_env demo_args installed_world) = None
   \<and> logs (snd (initialize restart_fails_env demo_args installed_world)) =
       [(INFO, ''Loading configuration..''),
        (INFO, ''Starting/enabling salt...''), (DEBUG, ''salt salt stdout: ''),
        (DEBUG, ''salt salt stderr: ''),
        (INFO, ''Starting/enabling postgres...''),
        (DEBUG, ''postgres salt stdout: ''), (DEBUG, ''postgres salt stderr: ''),
        (INFO, ''Initializing database...''),
        (INFO, ''Initializing web interface...''),
        (INFO, prompt_text),
        (INFO, ''Starting/enabling services...''),
        (DEBUG, ''services salt stdout: ''), (DEBUG, ''services salt stderr: ''),
        (INFO, ''Restarting services...''), (INFO, ''Complete.'')]"
  by (simp add: model_defs step_defs demo_defs installed_world_def restart_fails_env_def
        const_defs Let_def)

section \<open>The database of cthulhu\<close>

lemma cthulhu_db_schema_calls:
  assumes "ALEMBIC_TABLE \<notin> set (metadata w)"
  shows "filter is_schema_call (calls (snd (init_cthulhu_db env w))) =
           filter is_schema_call (calls w) @
             (case config_get env ''cthulhu'' ''db_path'' of
                Inl e \<Rightarrow> []
              | Inr p \<Rightarrow>
                  (case fails env Reflect of
                     Some e \<Rightarrow> []
                   | None \<Rightarrow>
                       if ALEMBIC_TABLE \<in> set (tables w) then [Upgrade ''head'']
                       else if fails env CreateAll = None then [CreateAll, Stamp ''head'']
                       else [CreateAll]))"
  using assms
  unfolding init_cthulhu_db_def reflect_def upgrade_def create_all_def stamp_def seq_def
  by (auto simp: step_defs is_schema_call_def split: option.splits sum.splits)

lemma keeps_schema_calls_after_db:
  "keeps (\<lambda>w. filter is_schema_call (calls w))
     (seq (init_django env a) (seq (init_ownership env) (init_services env)))"
  by (rule emits_keeps [OF emits_after_db]) (auto simp: is_schema_call_def)

lemma keeps_schema_calls_prefix: "keeps (\<lambda>w. filter is_schema_call (calls w)) (init_prefix env)"
  by (rule emits_keeps [OF emits_prefix]) (auto simp: is_schema_call_def)

lemma initialize_schema_calls:
  assumes "ALEMBIC_TABLE \<notin> set (metadata w)"
  shows "filter is_schema_call (calls (snd (initialize env a w))) =
           filter is_schema_call (calls w) @
             (if fst (init_prefix env w) = None then
                (case config_get env ''cthulhu'' ''db_path'' of
                   Inl e \<Rightarrow> []
                 | Inr p \<Rightarrow>
                     (case fails env Reflect of
                        Some e \<Rightarrow> []
                      | None \<Rightarrow>
                          if ALEMBIC_TABLE \<in> set (tables w) then [Upgrade ''head'']
                          else if fails env CreateAll = None then [CreateAll, Stamp ''head'']
                          else [CreateAll]))
              else [])"
proof -
  let ?rest = "seq (init_django env a) (seq (init_ownership env) (init_services env))"
  let ?w1 = "snd (init_prefix env w)"
  have i: "initialize env a = seq (init_prefix env) (seq (init_cthulhu_db env) ?rest)"
    by (simp add: initialize_def)
  have p: "filter is_schema_call (calls ?w1) = filter is_schema_call (calls w)"
    using keeps_schema_calls_prefix by (simp add: keeps_def)
  have t: "tables ?w1 = tables w" and m: "metadata ?w1 = metadata w"
    using keeps_tables_prefix keeps_metadata_prefix by (simp_all add: keeps_def)
  from seq_cases [of "init_prefix env" w "seq (init_cthulhu_db env) ?rest"]
  show ?thesis
  proof
    assume "\<exists>e. fst (init_prefix env w) = Some e
      \<and> seq (init_prefix env) (seq (init_cthulhu_db env) ?rest) w = init_prefix env w"
    with p show ?thesis
      by (auto simp: i)
  next
    assume r: "fst (init_prefix env w) = None
      \<and> seq (init_prefix env) (seq (init_cthulhu_db env) ?rest) w =
          seq (init_cthulhu_db env) ?rest ?w1"
    have "filter is_schema_call (calls (snd (seq (init_cthulhu_db env) ?rest ?w1))) =
        filter is_schema_call (calls (snd (init_cthulhu_db env ?w1)))"
      by (rule obs_seq_right [OF keeps_schema_calls_after_db])
    with r cthulhu_db_schema_calls [of ?w1 env] assms show ?thesis
      by (simp add: i p t m)
  qed
qed

text \<open>
  C1. The run starts in a fresh process, where \<open>Base.metadata\<close> holds the tables of the
  model classes and the version table is not one of them. Of the calls to the migration
  engine and to \<open>create_all\<close>, every run of \<open>initialize\<close> makes only those of one
  branch, the branch the detector of the specification names for the catalog the run
  found: with the version table there, at most \<open>upgrade("head")\<close>, never
  \<open>create_all\<close> or \<open>stamp\<close>; without it, never \<open>upgrade\<close>, so no migration step is
  replayed. When the steps before the database step have succeeded and \<open>reflect\<close>
  has answered, the test of the source agrees with the detector and the branch is run:
  exactly \<open>upgrade("head")\<close> in the one case, \<open>create_all\<close> and then, when it
  returns, \<open>stamp("head")\<close> in the other.
\<close>

theorem initialize_schema_branch:
  assumes "ALEMBIC_TABLE \<notin> set (metadata w)"
  shows "(\<exists>cs. filter is_schema_call (calls (snd (initialize env a w))) =
                 filter is_schema_call (calls w) @ cs
               \<and> (case spec_detect (tables w) of
                    EXISTING \<Rightarrow> cs = [] \<or> cs = [Upgrade ''head'']
                  | FRESH \<Rightarrow> cs = [] \<or> cs = [CreateAll] \<or> cs = [CreateAll, Stamp ''head'']))
         \<and> (init_prefix env w = (None, w1) \<longrightarrow>
              config_get env ''cthulhu'' ''db_path'' = Inr p \<longrightarrow> fails env Reflect = None \<longrightarrow>
                (ALEMBIC_TABLE \<in> set (metadata (snd (reflect env w1)))) =
                  (spec_detect (tables w) = EXISTING)
                \<and> filter is_schema_call (calls (snd (initialize env a w))) =
                    filter is_schema_call (calls w) @
                      (case spec_detect (tables w) of
                         EXISTING \<Rightarrow> [Upgrade ''head'']
                       | FRESH \<Rightarrow> if fails env CreateAll = None then [CreateAll, Stamp ''head'']
                                  else [CreateAll]))"
proof (intro conjI impI)
  show "\<exists>cs. filter is_schema_call (calls (snd (initialize env a w))) =
               filter is_schema_call (calls w) @ cs
             \<and> (case spec_detect (tables w) of
                  EXISTING \<Rightarrow> cs = [] \<or> cs = [Upgrade ''head'']
                | FRESH \<Rightarrow> cs = [] \<or> cs = [CreateAll] \<or> cs = [CreateAll, Stamp ''head''])"
    unfolding initialize_schema_calls [OF assms]
    by (auto simp: spec_detect_def split: sum.splits option.splits)
next
  assume a: "init_prefix env w = (None, w1)"
    and c: "config_get env ''cthulhu'' ''db_path'' = Inr p"
    and r: "fails env Reflect = None"
  from a have "tables w1 = tables w" and "metadata w1 = metadata w"
    using keeps_tables_prefix [of env] keeps_metadata_prefix [of env]
    by (auto simp: keeps_def dest: spec [of _ w])
  with assms r
  show "(ALEMBIC_TABLE \<in> set (metadata (snd (reflect env w1)))) =
      (spec_detect (tables w) = EXISTING)"
    by (auto simp: reflect_def record_call_def spec_detect_def)
  from a c r
  show "filter is_schema_call (calls (snd (initialize env a w))) =
      filter is_schema_call (calls w) @
        (case spec_detect (tables w) of
           EXISTING \<Rightarrow> [Upgrade ''head'']
         | FRESH \<Rightarrow> if fails env CreateAll = None then [CreateAll, Stamp ''head'']
                    else [CreateAll])"
    unfolding initialize_schema_calls [OF assms]
    by (simp add: spec_detect_def)
qed

lemma demo_prefix: "fst (init_prefix demo_env w) = None"
  by (simp add: init_prefix_def init_secret_key_def run_local_salt_def seq_def step_defs
        demo_env_def demo_config_def Let_def)

theorem initialize_schema_branch_witness:
  "ALEMBIC_TABLE \<notin> set (metadata demo_world)
   \<and> fst (init_prefix demo_env demo_world) = None
   \<and> config_get demo_env ''cthulhu'' ''db_path'' = Inr ''postgresql://localhost/calamari''
   \<and> fails demo_env Reflect = None
   \<and> spec_detect (tables demo_world) = FRESH
   \<and> filter is_schema_call (calls (snd (initialize demo_env demo_args demo_world))) =
       [CreateAll, Stamp ''head'']
   \<and> spec_detect (tables (demo_world\<lparr>tables := [''cthulhu_server'', ALEMBIC_TABLE]\<rparr>)) = EXISTING
   \<and> filter is_schema_call
       (calls (snd (initialize demo_env demo_args
          (demo_world\<lparr>tables := [''cthulhu_server'', ALEMBIC_TABLE]\<rparr>)))) = [Upgrade ''head'']"
proof -
  let ?v = "demo_world\<lparr>tables := [''cthulhu_server'', ALEMBIC_TABLE]\<rparr>"
  have m: "ALEMBIC_TABLE \<notin> set (metadata demo_world)" "ALEMBIC_TABLE \<notin> set (metadata ?v)"
    by (simp_all add: demo_world_def demo_env_def ALEMBIC_TABLE_def)
  have c: "config_get demo_env ''cthulhu'' ''db_path'' = Inr ''postgresql://localhost/calamari''"
    and r: "fails demo_env Reflect = None" and k: "fails demo_env CreateAll = None"
    by (simp_all add: demo_env_def demo_config_def)
  have d: "spec_detect (tables demo_world) = FRESH" "spec_detect (tables ?v) = EXISTING"
    "spec_detect [''cthulhu_server'', ALEMBIC_TABLE] = EXISTING"
    by (simp_all add: spec_detect_def demo_world_def ALEMBIC_TABLE_def)
  have p: "init_prefix demo_env demo_world = (None, snd (init_prefix demo_env demo_world))"
    "init_prefix demo_env ?v = (None, snd (init_prefix demo_env ?v))"
    using demo_prefix by (simp_all add: prod_eq_iff)
  from initialize_schema_branch [OF m(1), of demo_env demo_args
      "snd (init_prefix demo_env demo_world)" "''postgresql://localhost/calamari''"] p(1) c r
  have f: "filter is_schema_call (calls (snd (initialize demo_env demo_args demo_world))) =
      filter is_schema_call (calls demo_world) @ [CreateAll, Stamp ''head'']"
    by (simp add: d k)
  from initialize_schema_branch [OF m(2), of demo_env demo_args
      "snd (init_prefix demo_env ?v)" "''postgresql://localhost/calamari''"] p(2) c r
  have e: "filter is_schema_call (calls (snd (initialize demo_env demo_args ?v))) =
      filter is_schema_call (calls ?v) @ [Upgrade ''head'']"
    by (simp add: d)
  have "calls demo_world = []"
    by (simp add: demo_world_def)
  with m(1) demo_prefix c r d f e show ?thesis
    by simp
qed

section \<open>The secret key\<close>

lemma keeps_files_salt: "keeps files (run_local_salt env sls m)"
  unfolding keeps_def run_local_salt_def
  by (auto simp: step_defs Let_def split: option.splits prod.splits)

lemma keeps_files_cthulhu_db: "keeps files (init_cthulhu_db env)"
  unfolding keeps_def init_cthulhu_db_def reflect_def upgrade_def create_all_def stamp_def seq_def
  by (auto simp: step_defs Let_def split: option.splits sum.splits)

lemma keeps_files_execute: "keeps files (execute_from_command_line env argv)"
  unfolding keeps_def execute_from_command_line_def
  by (auto simp: step_defs Let_def split: option.splits sum.splits)

lemma keeps_files_admin_account: "keeps files (admin_account env a)"
  unfolding keeps_def admin_account_def create_given_def create_prompted_def create_superuser_def
    execute_from_command_line_def
  by (auto simp: step_defs Let_def split: option.splits sum.splits)

lemma keeps_files_django: "keeps files (init_django env a)"
proof -
  have q: "keeps files (quiet (execute_from_command_line env argv))" for argv
    by (rule keeps_quiet [OF keeps_files_execute]) simp_all
  have b: "keeps files (\<lambda>w. admin_account env a (log_msg INFO ''Initializing web interface...'' w))"
    by (rule keeps_after [OF keeps_files_admin_account]) (simp add: step_defs)
  have s: "keeps files (seq (quiet (execute_from_command_line env [[], ''syncdb'', ''--noinput'']))
       (seq (\<lambda>w. admin_account env a (log_msg INFO ''Initializing web interface...'' w))
          (quiet (execute_from_command_line env [[], ''collectstatic'', ''--noinput'']))))"
    by (rule keeps_seq [OF q keeps_seq [OF b q]])
  show ?thesis
    using keeps_after [OF s, of setdefault_settings]
    by (simp add: init_django_def [abs_def] setdefault_settings_def)
qed

lemma keeps_files_ownership: "keeps files (init_ownership env)"
  unfolding keeps_def init_ownership_def chown_to_def seq_def
  by (auto simp: step_defs Let_def split: option.splits sum.splits)

lemma keeps_files_restart: "keeps files (restart_services env)"
  unfolding keeps_def restart_services_def
  by (auto simp: step_defs split: option.splits)

lemma keeps_files_services: "keeps files (init_services env)"
  unfolding init_services_def by (intro keeps_seq keeps_files_salt keeps_files_restart)

lemma initialize_after_secret_key:
  "initialize env a =
     seq (init_secret_key env)
       (seq (seq (run_local_salt env RELAX_SALT_PERMS_SLS ''salt'')
               (run_local_salt env POSTGRES_SLS ''postgres''))
          (seq (init_cthulhu_db env)
             (seq (init_django env a) (seq (init_ownership env) (init_services env)))))"
  by (simp add: initialize_def init_prefix_def seq_assoc)

lemma initialize_files: "files (snd (initialize env a w)) = files (snd (init_secret_key env w))"
  unfolding initialize_after_secret_key
  by (rule obs_seq_right)
     (intro keeps_seq keeps_files_salt keeps_files_cthulhu_db keeps_files_django
        keeps_files_ownership keeps_files_services)

lemma initialize_random_calls:
  "filter (\<lambda>c. kind_of c = RandomK) (calls (snd (initialize env a w))) =
     filter (\<lambda>c. kind_of c = RandomK) (calls (snd (init_secret_key env w)))"
  unfolding initialize_after_secret_key
proof (rule obs_seq_right)
  have "emits (\<lambda>c. kind_of c \<noteq> RandomK)
     (seq (seq (run_local_salt env RELAX_SALT_PERMS_SLS ''salt'')
               (run_local_salt env POSTGRES_SLS ''postgres''))
          (seq (init_cthulhu_db env)
             (seq (init_django env a) (seq (init_ownership env) (init_services env)))))"
    by (intro emits_seq emits_mono [OF emits_salt] emits_mono [OF emits_cthulhu_db]
          emits_mono [OF emits_django] emits_mono [OF emits_ownership]
          emits_mono [OF emits_services]) auto
  then show "keeps (\<lambda>w. filter (\<lambda>c. kind_of c = RandomK) (calls w))
     (seq (seq (run_local_salt env RELAX_SALT_PERMS_SLS ''salt'')
               (run_local_salt env POSTGRES_SLS ''postgres''))
          (seq (init_cthulhu_db env)
             (seq (init_django env a) (seq (init_ownership env) (init_services env)))))"
    by (rule emits_keeps) simp
qed

lemma initialize_file_calls:
  "filter (\<lambda>c. kind_of c = FileK) (calls (snd (initialize env a w))) =
     filter (\<lambda>c. kind_of c = FileK) (calls (snd (init_secret_key env w)))"
  unfolding initialize_after_secret_key
proof (rule obs_seq_right)
  have "emits (\<lambda>c. kind_of c \<noteq> FileK)
     (seq (seq (run_local_salt env RELAX_SALT_PERMS_SLS ''salt'')
               (run_local_salt env POSTGRES_SLS ''postgres''))
          (seq (init_cthulhu_db env)
             (seq (init_django env a) (seq (init_ownership env) (init_services env)))))"
    by (intro emits_seq emits_mono [OF emits_salt] emits_mono [OF emits_cthulhu_db]
          emits_mono [OF emits_django] emits_mono [OF emits_ownership]
          emits_mono [OF emits_services]) auto
  then show "keeps (\<lambda>w. filter (\<lambda>c. kind_of c = FileK) (calls w))
     (seq (seq (run_local_salt env RELAX_SALT_PERMS_SLS ''salt'')
               (run_local_salt env POSTGRES_SLS ''postgres''))
          (seq (init_cthulhu_db env)
             (seq (init_django env a) (seq (init_ownership env) (init_services env)))))"
    by (rule emits_keeps) simp
qed

text \<open>
  C2. \<open>initialize\<close> never changes a file that exists when it starts, so a secret key
  that is there keeps its contents, whether the run completes or not. When the file at the
  configured path exists, the file system is left as it was, the file is not opened and no
  secret is generated. When the configuration is loaded and there is no file at that path,
  the file is opened for writing, whatever else is in the state: the existence of the file
  is the only test. If it can be opened, the secret is generated once and written there; if
  \<open>open\<close> raises, the run ends with that exception, no secret is generated and the
  file system is left as it was; if the generator raises, the run ends with that exception
  and the file is left empty.
\<close>

theorem secret_key_kept:
  "(files w q = Some c \<longrightarrow> files (snd (initialize env a w)) q = Some c)
   \<and> (config_get env ''calamari_web'' ''secret_key_path'' = Inr p \<longrightarrow> files w p \<noteq> None \<longrightarrow>
        files (snd (initialize env a w)) = files w
        \<and> filter (\<lambda>c. kind_of c = RandomK) (calls (snd (initialize env a w))) =
            filter (\<lambda>c. kind_of c = RandomK) (calls w)
        \<and> filter (\<lambda>c. kind_of c = FileK) (calls (snd (initialize env a w))) =
            filter (\<lambda>c. kind_of c = FileK) (calls w))
   \<and> (config_get env ''calamari_web'' ''secret_key_path'' = Inr p \<longrightarrow> files w p = None \<longrightarrow>
        fails env LoadConfig = None \<longrightarrow>
        filter (\<lambda>c. kind_of c = FileK) (calls (snd (initialize env a w))) =
          filter (\<lambda>c. kind_of c = FileK) (calls w) @ [OpenWrite p]
        \<and> (fails env (OpenWrite p) = None \<longrightarrow> fails env (GetRandomString 50 secret_chars) = None \<longrightarrow>
             files (snd (initialize env a w)) =
               (files w)(p \<mapsto> Text (get_random_string env 50 secret_chars))
             \<and> filter (\<lambda>c. kind_of c = RandomK) (calls (snd (initialize env a w))) =
                 filter (\<lambda>c. kind_of c = RandomK) (calls w) @ [GetRandomString 50 secret_chars])
        \<and> (fails env (OpenWrite p) = Some e \<longrightarrow>
             fst (initialize env a w) = Some e
             \<and> files (snd (initialize env a w)) = files w
             \<and> filter (\<lambda>c. kind_of c = RandomK) (calls (snd (initialize env a w))) =
                 filter (\<lambda>c. kind_of c = RandomK) (calls w))
        \<and> (fails env (OpenWrite p) = None \<longrightarrow> fails env (GetRandomString 50 secret_chars) = Some e \<longrightarrow>
             fst (initialize env a w) = Some e
             \<and> files (snd (initialize env a w)) = (files w)(p \<mapsto> Text [])))"
proof -
  have s: "fst (initialize env a w) = Some e" if "fst (init_secret_key env w) = Some e" for e
    using that seq_cases [of "init_secret_key env" w] by (auto simp: initialize_after_secret_key)
  show ?thesis
    unfolding initialize_files initialize_random_calls initialize_file_calls
    by (intro conjI impI s)
       (auto simp: init_secret_key_def step_defs Let_def split: option.splits sum.splits)
qed

theorem secret_key_kept_witness:
  "config_get demo_env ''calamari_web'' ''secret_key_path'' = Inr ''/etc/calamari/secret.key''
   \<and> files (installed_world\<lparr>files := (files installed_world)
        (''/etc/calamari/secret.key'' \<mapsto> Text ''s3cr3t'')\<rparr>) ''/etc/calamari/secret.key'' =
       Some (Text ''s3cr3t'')
   \<and> files (snd (initialize demo_env demo_args
        (installed_world\<lparr>files := (files installed_world)
           (''/etc/calamari/secret.key'' \<mapsto> Text ''s3cr3t'')\<rparr>))) ''/etc/calamari/secret.key'' =
       Some (Text ''s3cr3t'')
   \<and> files installed_world ''/etc/calamari/secret.key'' = None
   \<and> fails demo_env LoadConfig = None
   \<and> fails demo_env (OpenWrite ''/etc/calamari/secret.key'') = None
   \<and> fails demo_env (GetRandomString 50 secret_chars) = None
   \<and> files (snd (initialize demo_env demo_args installed_world)) ''/etc/calamari/secret.key'' =
       Some (Text (replicate 50 (CHR ''x'')))
   \<and> fails open_fails_env (OpenWrite ''/etc/calamari/secret.key'') = Some (OtherError ''IOError'')
   \<and> fst (initialize open_fails_env demo_args installed_world) = Some (OtherError ''IOError'')
   \<and> files (snd (initialize open_fails_env demo_args installed_world)) = files installed_world
   \<and> fails random_fails_env (GetRandomString 50 secret_chars) =
       Some (OtherError ''NotImplementedError'')
   \<and> files (snd (initialize random_fails_env demo_args installed_world))
        ''/etc/calamari/secret.key'' = Some (Text [])"
proof -
  let ?p = "''/etc/calamari/secret.key''"
  let ?w = "installed_world\<lparr>files := (files installed_world)(?p \<mapsto> Text ''s3cr3t'')\<rparr>"
  have c: "config_get demo_env ''calamari_web'' ''secret_key_path'' = Inr ?p"
    and l: "fails demo_env LoadConfig = None"
    and o1: "fails demo_env (OpenWrite ?p) = None"
    and r1: "fails demo_env (GetRandomString 50 secret_chars) = None"
    and g: "get_random_string demo_env 50 secret_chars = replicate 50 (CHR ''x'')"
    by (simp_all add: demo_env_def demo_config_def)
  have co: "config_get open_fails_env ''calamari_web'' ''secret_key_path'' = Inr ?p"
    and lo: "fails open_fails_env LoadConfig = None"
    and oo: "fails open_fails_env (OpenWrite ?p) = Some (OtherError ''IOError'')"
    by (simp_all add: open_fails_env_def demo_env_def demo_config_def)
  have cr: "config_get random_fails_env ''calamari_web'' ''secret_key_path'' = Inr ?p"
    and lr: "fails random_fails_env LoadConfig = None"
    and o3: "fails random_fails_env (OpenWrite ?p) = None"
    and rr: "fails random_fails_env (GetRandomString 50 secret_chars) =
        Some (OtherError ''NotImplementedError'')"
    by (simp_all add: random_fails_env_def demo_env_def demo_config_def)
  have e: "files ?w ?p = Some (Text ''s3cr3t'')"
    by simp
  have n: "files installed_world ?p = None"
    by (simp add: installed_world_def const_defs)
  from secret_key_kept [of ?w ?p "Text ''s3cr3t''" demo_env demo_args ?p] e
  have k: "files (snd (initialize demo_env demo_args ?w)) ?p = Some (Text ''s3cr3t'')"
    by blast
  from secret_key_kept [of installed_world ?p "Text []" demo_env demo_args ?p] c n l o1 r1
  have "files (snd (initialize demo_env demo_args installed_world)) =
      (files installed_world)(?p \<mapsto> Text (get_random_string demo_env 50 secret_chars))"
    by blast
  then have m: "files (snd (initialize demo_env demo_args installed_world)) ?p =
      Some (Text (replicate 50 (CHR ''x'')))"
    by (simp add: g)
  from secret_key_kept [of installed_world ?p "Text []" open_fails_env demo_args ?p
      "OtherError ''IOError''"] co n lo oo
  have f: "fst (initialize open_fails_env demo_args installed_world) = Some (OtherError ''IOError'')"
    and u: "files (snd (initialize open_fails_env demo_args installed_world)) = files installed_world"
    by blast+
  from secret_key_kept [of installed_world ?p "Text []" random_fails_env demo_args ?p
      "OtherError ''NotImplementedError''"] cr n lr o3 rr
  have "files (snd (initialize random_fails_env demo_args installed_world)) =
      (files installed_world)(?p \<mapsto> Text [])"
    by blast
  then have v: "files (snd (initialize random_fails_env demo_args installed_world)) ?p =
      Some (Text [])"
    by simp
  from c e k n l o1 r1 m oo f u rr v show ?thesis
    by blast
qed

section \<open>The administrative account\<close>

lemma seq_right_obs:
  "keeps obs g \<Longrightarrow>
   obs (snd (seq f g w)) = obs (snd (f w)) \<and> (fst (seq f g w) = None \<longrightarrow> fst (f w) = None)"
  using seq_cases [of f w g] by (auto simp: keeps_def)

text \<open>
  The account step is the only step of \<open>initialize\<close> that can change an observation
  all the other steps keep: the run either ends before the account step, with an
  exception, or it shows what the account step did.
\<close>

lemma seq_left_cases:
  assumes "\<And>e. fst (f w) = Some e \<Longrightarrow> R (f w)"
    and "fst (f w) = None \<Longrightarrow> R (g (snd (f w)))"
  shows "R (seq f g w)"
proof (cases "fst (f w)")
  case None
  then have "seq f g w = g (snd (f w))"
    by (cases "f w") (simp add: seq_def)
  with None assms(2) show ?thesis
    by simp
next
  case (Some e)
  then have "seq f g w = f w"
    by (cases "f w") (simp add: seq_def)
  with Some assms(1) show ?thesis
    by simp
qed

lemma initialize_around_account:
  assumes P: "keeps obs (init_prefix env)"
    and D: "keeps obs (init_cthulhu_db env)"
    and Q1: "keeps obs (quiet (execute_from_command_line env [[], ''syncdb'', ''--noinput'']))"
    and Q2: "keeps obs (quiet (execute_from_command_line env [[], ''collectstatic'', ''--noinput'']))"
    and O: "keeps obs (init_ownership env)"
    and S: "keeps obs (init_services env)"
    and f1: "\<And>w. obs (setdefault_settings w) = obs w"
    and f2: "\<And>w l m. obs (log_msg l m w) = obs w"
  shows "\<exists>w4. obs w4 = obs w
           \<and> (obs (snd (initialize env a w)) = obs w
                \<or> obs (snd (initialize env a w)) = obs (snd (admin_account env a w4)))
           \<and> (fst (initialize env a w) = None \<longrightarrow>
                fst (admin_account env a w4) = None
                \<and> obs (snd (initialize env a w)) = obs (snd (admin_account env a w4)))"
proof -
  let ?q1 = "quiet (execute_from_command_line env [[], ''syncdb'', ''--noinput''])"
  let ?q2 = "quiet (execute_from_command_line env [[], ''collectstatic'', ''--noinput''])"
  let ?adm = "\<lambda>w. admin_account env a (log_msg INFO ''Initializing web interface...'' w)"
  let ?os = "seq (init_ownership env) (init_services env)"
  define w1 where "w1 = snd (init_prefix env w)"
  define w2 where "w2 = snd (init_cthulhu_db env w1)"
  define w3 where "w3 = snd (?q1 (setdefault_settings w2))"
  define w4 where "w4 = log_msg INFO ''Initializing web interface...'' w3"
  define R :: "exn option \<times> world \<Rightarrow> bool" where "R x \<longleftrightarrow>
      (obs (snd x) = obs w \<and> fst x \<noteq> None)
      \<or> (obs (snd x) = obs (snd (admin_account env a w4))
         \<and> (fst x = None \<longrightarrow> fst (admin_account env a w4) = None))" for x
  have raised: "R x" if "obs (snd x) = obs w" and "fst x = Some e" for x e
    using that by (simp add: R_def)
  have o1: "obs w1 = obs w"
    unfolding w1_def by (rule keepsD [OF P])
  have o2: "obs w2 = obs w"
    unfolding w2_def using keepsD [OF D, of w1] o1 by simp
  have o3: "obs w3 = obs w"
    unfolding w3_def using keepsD [OF Q1, of "setdefault_settings w2"] f1 [of w2] o2 by simp
  have o4: "obs w4 = obs w"
    unfolding w4_def using f2 [of INFO "''Initializing web interface...''" w3] o3 by simp
  have a: "R (seq ?adm ?q2 w3)"
  proof -
    from seq_right_obs [OF Q2, of ?adm w3]
    have "obs (snd (seq ?adm ?q2 w3)) = obs (snd (admin_account env a w4))"
      and "fst (seq ?adm ?q2 w3) = None \<longrightarrow> fst (admin_account env a w4) = None"
      by (simp_all add: w4_def)
    then show ?thesis
      by (simp add: R_def)
  qed
  have j: "R (init_django env a w2)"
  proof -
    have "R (seq ?q1 (seq ?adm ?q2) (setdefault_settings w2))"
    proof (rule seq_left_cases)
      fix e
      assume "fst (?q1 (setdefault_settings w2)) = Some e"
      with o3 show "R (?q1 (setdefault_settings w2))"
        by (intro raised) (simp_all add: w3_def)
    next
      from a show "R (seq ?adm ?q2 (snd (?q1 (setdefault_settings w2))))"
        by (simp add: w3_def)
    qed
    then show ?thesis
      by (simp add: init_django_def)
  qed
  have r: "R (seq (init_django env a) ?os w2)"
  proof -
    from seq_right_obs [OF keeps_seq [OF O S], of "init_django env a" w2]
    have 1: "obs (snd (seq (init_django env a) ?os w2)) = obs (snd (init_django env a w2))"
      and 2: "fst (seq (init_django env a) ?os w2) = None \<longrightarrow> fst (init_django env a w2) = None"
      by simp_all
    from j have "(obs (snd (init_django env a w2)) = obs w \<and> fst (init_django env a w2) \<noteq> None)
      \<or> (obs (snd (init_django env a w2)) = obs (snd (admin_account env a w4))
         \<and> (fst (init_django env a w2) = None \<longrightarrow> fst (admin_account env a w4) = None))"
      by (simp add: R_def)
    with 1 2 have "(obs (snd (seq (init_django env a) ?os w2)) = obs w
         \<and> fst (seq (init_django env a) ?os w2) \<noteq> None)
      \<or> (obs (snd (seq (init_django env a) ?os w2)) = obs (snd (admin_account env a w4))
         \<and> (fst (seq (init_django env a) ?os w2) = None \<longrightarrow> fst (admin_account env a w4) = None))"
      by metis
    then show ?thesis
      by (simp add: R_def)
  qed
  have d: "R (seq (init_cthulhu_db env) (seq (init_django env a) ?os) w1)"
  proof (rule seq_left_cases)
    fix e
    assume "fst (init_cthulhu_db env w1) = Some e"
    with o2 show "R (init_cthulhu_db env w1)"
      by (intro raised) (simp_all add: w2_def)
  next
    from r show "R (seq (init_django env a) ?os (snd (init_cthulhu_db env w1)))"
      by (simp add: w2_def)
  qed
  have "R (seq (init_prefix env) (seq (init_cthulhu_db env) (seq (init_django env a) ?os)) w)"
  proof (rule seq_left_cases)
    fix e
    assume "fst (init_prefix env w) = Some e"
    with o1 show "R (init_prefix env w)"
      by (intro raised) (simp_all add: w1_def)
  next
    from d show "R (seq (init_cthulhu_db env) (seq (init_django env a) ?os)
        (snd (init_prefix env w)))"
      by (simp add: w1_def)
  qed
  then have "R (initialize env a w)"
    by (simp add: initialize_def)
  then have "(obs (snd (initialize env a w)) = obs w \<and> fst (initialize env a w) \<noteq> None)
      \<or> (obs (snd (initialize env a w)) = obs (snd (admin_account env a w4))
         \<and> (fst (initialize env a w) = None \<longrightarrow> fst (admin_account env a w4) = None))"
    by (simp add: R_def)
  with o4 show ?thesis
    by (intro exI [of _ w4]) blast
qed

lemma users_around_account:
  "\<exists>w4. users w4 = users w
     \<and> (users (snd (initialize env a w)) = users w
          \<or> users (snd (initialize env a w)) = users (snd (admin_account env a w4)))
     \<and> (fst (initialize env a w) = None \<longrightarrow>
          fst (admin_account env a w4) = None
          \<and> users (snd (initialize env a w)) = users (snd (admin_account env a w4)))"
  by (rule initialize_around_account [where obs = users])
     (simp_all add: keeps_users_prefix keeps_users_cthulhu_db keeps_users_quiet_execute
        keeps_users_ownership keeps_users_services step_defs)

lemma admin_account_given:
  "u \<noteq> [] \<Longrightarrow> p \<noteq> [] \<Longrightarrow> e \<noteq> [] \<Longrightarrow>
   admin_account env (admin_flags u p e) w = create_given env u p e w"
  by (simp add: admin_account_def admin_flags_def)

lemma create_given_users:
  "users (snd (create_given env u p e w)) =
     (if u \<in> set (map username (users w)) \<or> fails env (CreateSuperuser u p e) \<noteq> None
      then users w else users w @ [\<lparr>username = u, password = p, email = e\<rparr>])"
  by (auto simp: create_given_def create_superuser_def step_defs split: option.splits)

lemma create_given_returns:
  "fst (create_given env u p e w) = None \<longleftrightarrow>
     u \<in> set (map username (users w)) \<or> fails env (CreateSuperuser u p e) = None"
  by (auto simp: create_given_def create_superuser_def step_defs split: option.splits)

lemma admin_account_existing:
  assumes "admin_username a = Some u" and "u \<in> set (map username (users w))"
  shows "admin_account env a w = (None, w)"
proof -
  from assms(2) have "users w \<noteq> []"
    by auto
  with assms show ?thesis
    by (cases "admin_password a"; cases "admin_email a")
       (auto simp: admin_account_def create_given_def create_prompted_def)
qed

text \<open>
  C3, as the code has it. A flag counts as given when its value is not empty. With the
  three flags given and no account of that name, a run creates at most one account, and a
  run that completes has created exactly one, with the name, password and email of the
  flags, after the accounts that were there. With an account of that name there, no run
  changes the accounts, whatever the other two flags say: a second run, in a new
  process, adds nothing and overwrites nothing.
\<close>

theorem admin_account_created_once:
  assumes "u \<noteq> []" and "p \<noteq> []" and "e \<noteq> []"
  shows "(u \<notin> set (map username (users w)) \<longrightarrow>
            (users (snd (initialize env (admin_flags u p e) w)) = users w
             \<or> users (snd (initialize env (admin_flags u p e) w)) =
                 users w @ [\<lparr>username = u, password = p, email = e\<rparr>])
            \<and> (fst (initialize env (admin_flags u p e) w) = None \<longrightarrow>
                 users (snd (initialize env (admin_flags u p e) w)) =
                   users w @ [\<lparr>username = u, password = p, email = e\<rparr>]
                 \<and> length (filter (\<lambda>x. username x = u)
                      (users (snd (initialize env (admin_flags u p e) w)))) = 1
                 \<and> users (snd (initialize env2 (admin_flags u p e)
                      (new_process env2 (snd (initialize env (admin_flags u p e) w))))) =
                    users (snd (initialize env (admin_flags u p e) w))))
         \<and> (u \<in> set (map username (users w)) \<longrightarrow> admin_username a2 = Some u \<longrightarrow>
              users (snd (initialize env a2 w)) = users w)"
proof -
  have existing: "users (snd (initialize env' a' w')) = users w'"
    if "admin_username a' = Some u" and "u \<in> set (map username (users w'))"
    for env' a' w'
  proof -
    obtain w4 where
      w4: "users w4 = users w'
        \<and> (users (snd (initialize env' a' w')) = users w'
             \<or> users (snd (initialize env' a' w')) = users (snd (admin_account env' a' w4)))
        \<and> (fst (initialize env' a' w') = None \<longrightarrow>
             fst (admin_account env' a' w4) = None
             \<and> users (snd (initialize env' a' w')) = users (snd (admin_account env' a' w4)))"
      using users_around_account [of w' env' a'] by (rule exE)
    from that w4 have "admin_account env' a' w4 = (None, w4)"
      by (intro admin_account_existing) simp_all
    with w4 show ?thesis
      by auto
  qed
  let ?a = "admin_flags u p e"
  let ?new = "\<lparr>username = u, password = p, email = e\<rparr>"
  obtain w4 where
    w4: "users w4 = users w
      \<and> (users (snd (initialize env ?a w)) = users w
           \<or> users (snd (initialize env ?a w)) = users (snd (admin_account env ?a w4)))
      \<and> (fst (initialize env ?a w) = None \<longrightarrow>
           fst (admin_account env ?a w4) = None
           \<and> users (snd (initialize env ?a w)) = users (snd (admin_account env ?a w4)))"
    using users_around_account [of w env ?a] by (rule exE)
  note g = admin_account_given [OF assms, of env w4]
  from w4 have uw: "users w4 = users w"
    by simp
  have cg: "users (snd (admin_account env ?a w4)) =
      (if u \<in> set (map username (users w)) \<or> fails env (CreateSuperuser u p e) \<noteq> None
       then users w else users w @ [?new])"
    by (simp only: g create_given_users uw)
  have cf: "fst (admin_account env ?a w4) = None \<longleftrightarrow>
      u \<in> set (map username (users w)) \<or> fails env (CreateSuperuser u p e) = None"
    by (simp only: g create_given_returns uw)
  have fresh: "users (snd (initialize env ?a w)) = users w
      \<or> users (snd (initialize env ?a w)) = users w @ [?new]"
  proof (cases "u \<in> set (map username (users w)) \<or> fails env (CreateSuperuser u p e) \<noteq> None")
    case True
    with cg have "users (snd (admin_account env ?a w4)) = users w"
      by simp
    with w4 show ?thesis
      by auto
  next
    case False
    with cg have "users (snd (admin_account env ?a w4)) = users w @ [?new]"
      by simp
    with w4 show ?thesis
      by auto
  qed
  have made: "users (snd (initialize env ?a w)) = users w @ [?new]"
    if n: "u \<notin> set (map username (users w))" and c: "fst (initialize env ?a w) = None"
  proof -
    from w4 c have 1: "fst (admin_account env ?a w4) = None"
      and 2: "users (snd (initialize env ?a w)) = users (snd (admin_account env ?a w4))"
      by simp_all
    from 1 n cf have "fails env (CreateSuperuser u p e) = None"
      by simp
    with n cg have "users (snd (admin_account env ?a w4)) = users w @ [?new]"
      by simp
    with 2 show ?thesis
      by simp
  qed
  have one: "length (filter (\<lambda>x. username x = u) (users w @ [?new])) = 1"
    if "u \<notin> set (map username (users w))"
  proof -
    from that have "filter (\<lambda>x. username x = u) (users w) = []"
      by (auto simp: filter_empty_conv)
    then show ?thesis
      by simp
  qed
  have again: "users (snd (initialize env2 ?a (new_process env2 (snd (initialize env ?a w))))) =
      users (snd (initialize env ?a w))"
    if "users (snd (initialize env ?a w)) = users w @ [?new]"
  proof -
    have 1: "admin_username ?a = Some u"
      by (simp add: admin_flags_def)
    have 2: "u \<in> set (map username (users (new_process env2 (snd (initialize env ?a w)))))"
      by (simp add: new_process_def that)
    have "users (snd (initialize env2 ?a (new_process env2 (snd (initialize env ?a w))))) =
        users (new_process env2 (snd (initialize env ?a w)))"
      by (rule existing [OF 1 2])
    then show ?thesis
      by (simp add: new_process_def)
  qed
  from fresh made one again existing [of a2 w env] show ?thesis
    by auto
qed

lemma bob_run:
  "fst (initialize demo_env (admin_flags ''alice'' ''p'' ''a@x.com'') bob_world) = None"
  by (simp add: model_defs step_defs demo_defs installed_world_def bob_world_def bob_def
        admin_flags_def const_defs Let_def)

theorem admin_account_created_once_witness:
  "''alice'' \<noteq> [] \<and> ''p'' \<noteq> [] \<and> ''a@x.com'' \<noteq> []
   \<and> ''alice'' \<notin> set (map username (users bob_world))
   \<and> fst (initialize demo_env (admin_flags ''alice'' ''p'' ''a@x.com'') bob_world) = None
   \<and> users (snd (initialize demo_env (admin_flags ''alice'' ''p'' ''a@x.com'') bob_world)) =
       [bob, \<lparr>username = ''alice'', password = ''p'', email = ''a@x.com''\<rparr>]
   \<and> users (snd (initialize demo_env (admin_flags ''alice'' ''p'' ''a@x.com'')
        (new_process demo_env
           (snd (initialize demo_env (admin_flags ''alice'' ''p'' ''a@x.com'') bob_world))))) =
       [bob, \<lparr>username = ''alice'', password = ''p'', email = ''a@x.com''\<rparr>]"
proof -
  have n: "''alice'' \<notin> set (map username (users bob_world))"
    and b: "users bob_world = [bob]"
    by (simp_all add: bob_world_def bob_def)
  have h: "''alice'' \<noteq> []" "''p'' \<noteq> []" "''a@x.com'' \<noteq> []"
    by simp_all
  from admin_account_created_once [OF h, of bob_world demo_env demo_env] n bob_run
  have "users (snd (initialize demo_env (admin_flags ''alice'' ''p'' ''a@x.com'') bob_world)) =
      users bob_world @ [\<lparr>username = ''alice'', password = ''p'', email = ''a@x.com''\<rparr>]
    \<and> users (snd (initialize demo_env (admin_flags ''alice'' ''p'' ''a@x.com'')
        (new_process demo_env
           (snd (initialize demo_env (admin_flags ''alice'' ''p'' ''a@x.com'') bob_world))))) =
      users (snd (initialize demo_env (admin_flags ''alice'' ''p'' ''a@x.com'') bob_world))"
    by blast
  with n bob_run show ?thesis
    by (simp add: b)
qed

text \<open>
  C3, as the claim states it, fails: with all three flags on the command line, the
  password empty, and no account named alice, the run completes and no account named
  alice exists afterwards.
\<close>

theorem admin_account_empty_flag_counterexample:
  "''alice'' \<notin> set (map username (users bob_world))
   \<and> fst (initialize demo_env (admin_flags ''alice'' [] ''a@x.com'') bob_world) = None
   \<and> users (snd (initialize demo_env (admin_flags ''alice'' [] ''a@x.com'') bob_world)) = [bob]"
  by (simp add: model_defs step_defs demo_defs installed_world_def bob_world_def bob_def
        admin_flags_def const_defs Let_def)

lemma admin_account_partial:
  assumes "admin_username a = None \<or> admin_password a = None \<or> admin_email a = None"
  shows "admin_account env a = create_prompted env"
  using assms by (auto simp: admin_account_def fun_eq_iff)

lemma emits_create_prompted: "emits (\<lambda>c. kind_of c \<noteq> AccountK) (create_prompted env)"
  unfolding emits_def create_prompted_def execute_from_command_line_def
  by (auto simp: step_defs Let_def split: option.splits sum.splits)

lemma keeps_prompt_calls_quiet_execute:
  "argv \<noteq> [[], ''createsuperuser''] \<Longrightarrow>
   keeps (\<lambda>w. filter (\<lambda>c. c = prompt_call) (calls w)) (quiet (execute_from_command_line env argv))"
  by (rule emits_keeps [OF emits_quiet [OF emits_execute]]) (simp add: prompt_call_def)

lemma create_prompted_calls:
  "users w \<noteq> [] \<Longrightarrow> create_prompted env w = (None, w)"
  "users w = [] \<Longrightarrow>
     filter (\<lambda>c. c = prompt_call) (calls (snd (create_prompted env w))) =
       filter (\<lambda>c. c = prompt_call) (calls w) @ [prompt_call]"
  by (auto simp: create_prompted_def execute_from_command_line_def prompt_call_def step_defs
        Let_def split: option.splits sum.splits)

text \<open>
  C10. When at least one of the three flags is missing, the run is the run without any
  flag, state for state. \<open>create_superuser\<close> is never called. With an account in the
  database the prompts of \<open>createsuperuser\<close> are never started; with none, they are
  started at most once, and exactly once in every run that completes.
\<close>

theorem partial_admin_flags_ignored:
  assumes "admin_username a = None \<or> admin_password a = None \<or> admin_email a = None"
  shows "initialize env a w =
           initialize env \<lparr>admin_username = None, admin_password = None, admin_email = None\<rparr> w
         \<and> filter (\<lambda>c. kind_of c = AccountK) (calls (snd (initialize env a w))) =
             filter (\<lambda>c. kind_of c = AccountK) (calls w)
         \<and> (users w \<noteq> [] \<longrightarrow>
              filter (\<lambda>c. c = prompt_call) (calls (snd (initialize env a w))) =
                filter (\<lambda>c. c = prompt_call) (calls w))
         \<and> (users w = [] \<longrightarrow>
              (filter (\<lambda>c. c = prompt_call) (calls (snd (initialize env a w))) =
                 filter (\<lambda>c. c = prompt_call) (calls w)
               \<or> filter (\<lambda>c. c = prompt_call) (calls (snd (initialize env a w))) =
                   filter (\<lambda>c. c = prompt_call) (calls w) @ [prompt_call])
              \<and> (fst (initialize env a w) = None \<longrightarrow>
                   filter (\<lambda>c. c = prompt_call) (calls (snd (initialize env a w))) =
                     filter (\<lambda>c. c = prompt_call) (calls w) @ [prompt_call]))"
proof (intro conjI)
  note cp = admin_account_partial [OF assms]
  have "admin_account env a =
      admin_account env \<lparr>admin_username = None, admin_password = None, admin_email = None\<rparr>"
    by (simp add: cp admin_account_partial)
  then have "init_django env a =
      init_django env \<lparr>admin_username = None, admin_password = None, admin_email = None\<rparr>"
    by (simp add: init_django_def fun_eq_iff)
  then show "initialize env a w =
      initialize env \<lparr>admin_username = None, admin_password = None, admin_email = None\<rparr> w"
    by (simp add: initialize_def)
  have "emits (\<lambda>c. kind_of c \<noteq> AccountK) (admin_account env a)"
    by (simp add: cp emits_create_prompted)
  then have "emits (\<lambda>c. kind_of c \<noteq> AccountK) (init_django env a)"
    by (rule emits_django_from) simp
  then have "emits (\<lambda>c. kind_of c \<noteq> AccountK) (initialize env a)"
    unfolding initialize_def
    by (intro emits_seq emits_mono [OF emits_prefix] emits_mono [OF emits_cthulhu_db]
          emits_mono [OF emits_ownership] emits_mono [OF emits_services]) auto
  then show "filter (\<lambda>c. kind_of c = AccountK) (calls (snd (initialize env a w))) =
      filter (\<lambda>c. kind_of c = AccountK) (calls w)"
    by (rule emits_filter) simp
  let ?f = "\<lambda>w. filter (\<lambda>c. c = prompt_call) (calls w)"
  let ?obs = "\<lambda>w. (users w, ?f w)"
  have k: "keeps ?f (init_prefix env)" "keeps ?f (init_cthulhu_db env)"
    "keeps ?f (init_ownership env)" "keeps ?f (init_services env)"
    by (rule emits_keeps [OF emits_prefix], auto simp: prompt_call_def,
        rule emits_keeps [OF emits_cthulhu_db], auto simp: prompt_call_def,
        rule emits_keeps [OF emits_ownership], auto simp: prompt_call_def,
        rule emits_keeps [OF emits_services], auto simp: prompt_call_def)
  have "\<exists>w4. ?obs w4 = ?obs w
     \<and> (?obs (snd (initialize env a w)) = ?obs w
          \<or> ?obs (snd (initialize env a w)) = ?obs (snd (admin_account env a w4)))
     \<and> (fst (initialize env a w) = None \<longrightarrow>
          fst (admin_account env a w4) = None
          \<and> ?obs (snd (initialize env a w)) = ?obs (snd (admin_account env a w4)))"
    by (rule initialize_around_account [where obs = ?obs])
       (simp_all add: keeps_pair k keeps_users_prefix keeps_users_cthulhu_db
          keeps_users_quiet_execute keeps_users_ownership keeps_users_services
          keeps_prompt_calls_quiet_execute step_defs)
  then obtain w4 where w4: "users w4 = users w" "?f w4 = ?f w"
    "?f (snd (initialize env a w)) = ?f w
     \<or> ?f (snd (initialize env a w)) = ?f (snd (create_prompted env w4))"
    "fst (initialize env a w) = None \<longrightarrow>
       ?f (snd (initialize env a w)) = ?f (snd (create_prompted env w4))"
    by (auto simp: cp)
  show "users w \<noteq> [] \<longrightarrow> ?f (snd (initialize env a w)) = ?f w"
    using w4 create_prompted_calls(1) [of w4 env] by auto
  show "users w = [] \<longrightarrow>
      (?f (snd (initialize env a w)) = ?f w \<or> ?f (snd (initialize env a w)) = ?f w @ [prompt_call])
      \<and> (fst (initialize env a w) = None \<longrightarrow>
           ?f (snd (initialize env a w)) = ?f w @ [prompt_call])"
    using w4 create_prompted_calls(2) [of w4 env] by auto
qed

theorem partial_admin_flags_ignored_witness:
  "(admin_username \<lparr>admin_username = Some ''alice'', admin_password = None,
       admin_email = Some ''a@x.com''\<rparr> = None
    \<or> admin_password \<lparr>admin_username = Some ''alice'', admin_password = None,
         admin_email = Some ''a@x.com''\<rparr> = None
    \<or> admin_email \<lparr>admin_username = Some ''alice'', admin_password = None,
         admin_email = Some ''a@x.com''\<rparr> = None)
   \<and> users installed_world = []
   \<and> fst (initialize demo_env \<lparr>admin_username = Some ''alice'', admin_password = None,
        admin_email = Some ''a@x.com''\<rparr> installed_world) = None
   \<and> filter (\<lambda>c. c = prompt_call)
       (calls (snd (initialize demo_env \<lparr>admin_username = Some ''alice'', admin_password = None,
          admin_email = Some ''a@x.com''\<rparr> installed_world))) = [prompt_call]
   \<and> filter (\<lambda>c. kind_of c = AccountK)
       (calls (snd (initialize demo_env \<lparr>admin_username = Some ''alice'', admin_password = None,
          admin_email = Some ''a@x.com''\<rparr> installed_world))) = []
   \<and> users bob_world \<noteq> []
   \<and> filter (\<lambda>c. c = prompt_call)
       (calls (snd (initialize demo_env \<lparr>admin_username = Some ''alice'', admin_password = None,
          admin_email = Some ''a@x.com''\<rparr> bob_world))) = []"
proof -
  let ?a = "\<lparr>admin_username = Some ''alice'', admin_password = None,
              admin_email = Some ''a@x.com''\<rparr>"
  have h: "admin_username ?a = None \<or> admin_password ?a = None \<or> admin_email ?a = None"
    by simp
  have u: "users installed_world = []" "users bob_world \<noteq> []"
    and c: "calls installed_world = []" "calls bob_world = []"
    by (simp_all add: installed_world_def bob_world_def demo_world_def)
  have r: "fst (initialize demo_env demo_args installed_world) = None"
    by (simp add: model_defs step_defs demo_defs installed_world_def const_defs Let_def)
  note t = partial_admin_flags_ignored [OF h, of demo_env installed_world]
  note b = partial_admin_flags_ignored [OF h, of demo_env bob_world]
  from t r have r': "fst (initialize demo_env ?a installed_world) = None"
    by (simp add: demo_args_def)
  from t u(1) r' have
    "filter (\<lambda>c. c = prompt_call) (calls (snd (initialize demo_env ?a installed_world))) =
       filter (\<lambda>c. c = prompt_call) (calls installed_world) @ [prompt_call]"
    by blast
  moreover from t have
    "filter (\<lambda>c. kind_of c = AccountK) (calls (snd (initialize demo_env ?a installed_world))) =
       filter (\<lambda>c. kind_of c = AccountK) (calls installed_world)"
    by blast
  moreover from b u(2) have
    "filter (\<lambda>c. c = prompt_call) (calls (snd (initialize demo_env ?a bob_world))) =
       filter (\<lambda>c. c = prompt_call) (calls bob_world)"
    by blast
  ultimately show ?thesis
    using h u r' by (simp add: c)
qed

end
